theory Spec2Isabelle
  imports Main
begin

section \<open>Strings\<close>

text \<open>
  A JavaScript string is a sequence of UTF-16 code units; a code unit is modelled as its
  number. \<open>lit\<close> writes a string of ASCII characters.
\<close>

type_synonym jsstring = "nat list"

definition lit :: "string \<Rightarrow> jsstring" where
  "lit s = map of_char s"

section \<open>Room binding: \<open>sanitizeRoom\<close> and \<open>getRoomFromURL\<close>\<close>

definition is_upper :: "nat \<Rightarrow> bool" where
  "is_upper c = (65 \<le> c \<and> c \<le> 90)"

definition is_lower :: "nat \<Rightarrow> bool" where
  "is_lower c = (97 \<le> c \<and> c \<le> 122)"

definition is_digit :: "nat \<Rightarrow> bool" where
  "is_digit c = (48 \<le> c \<and> c \<le> 57)"

text \<open>
  The code units that \<^verbatim>\<open>replace(/[^a-z0-9_-]/gi, "")\<close> keeps. The expression has no flag
  \<open>u\<close>, so it works on code units; the flag \<open>i\<close> makes the class \<open>a-z\<close> match the ASCII
  upper-case letters too, and no code unit from 128 on matches a class of ASCII
  characters. 95 is the underscore and 45 the hyphen.
\<close>

definition room_char :: "nat \<Rightarrow> bool" where
  "room_char c = (is_lower c \<or> is_upper c \<or> is_digit c \<or> c = 95 \<or> c = 45)"

text \<open>The class the specification names, \<open>[a-z0-9_-]\<close>, without upper case.\<close>

definition room_char_lc :: "nat \<Rightarrow> bool" where
  "room_char_lc c = (is_lower c \<or> is_digit c \<or> c = 95 \<or> c = 45)"

text \<open>
  \<^verbatim>\<open>function sanitizeRoom(s) { return (s || "").toLowerCase().replace(/[^a-z0-9_-]/gi, "").slice(0, 64) || "demo"; }\<close>
  For a string \<open>s\<close>, \<open>s || ""\<close> is \<open>s\<close>; the final \<open>|| "demo"\<close> replaces the empty string.
  The built-in \<open>String.prototype.toLowerCase\<close>, which follows the Unicode case mappings
  (it turns the Kelvin sign U+212A into \<open>k\<close>, for instance), is the argument \<open>toLower\<close>.
\<close>

definition sanitizeRoom :: "(jsstring \<Rightarrow> jsstring) \<Rightarrow> jsstring \<Rightarrow> jsstring" where
  "sanitizeRoom toLower s =
     (let r = take 64 (filter room_char (toLower s))
      in if r = [] then lit ''demo'' else r)"

text \<open>
  What the theorems on \<open>sanitizeRoom\<close> use of \<open>toLowerCase\<close>: a lower-cased string holds no
  ASCII upper-case letter, and a string of characters of \<open>[a-z0-9_-]\<close> is its own lower
  case.
\<close>

definition lower_casing :: "(jsstring \<Rightarrow> jsstring) \<Rightarrow> bool" where
  "lower_casing toLower =
     ((\<forall>s. list_all (\<lambda>c. \<not> is_upper c) (toLower s))
      \<and> (\<forall>s. list_all room_char_lc s \<longrightarrow> toLower s = s))"

text \<open>
  \<^verbatim>\<open>getRoomFromURL\<close> reads the query parameter \<open>room\<close> of the page address inside its
  own \<open>try\<close>/\<open>catch\<close>. Its argument \<open>param\<close> is that parameter: \<open>None\<close> when there is no
  window, the address does not parse, or the parameter is absent.
\<close>

definition getRoomFromURL :: "(jsstring \<Rightarrow> jsstring) \<Rightarrow> jsstring option \<Rightarrow> jsstring" where
  "getRoomFromURL toLower param =
     (case param of
        None \<Rightarrow> []
      | Some r \<Rightarrow> if r = [] then [] else sanitizeRoom toLower r)"

section \<open>Constants and types\<close>

datatype House = Gryffindor | Slytherin | Ravenclaw | Hufflepuff

definition HOUSES :: "House list" where
  "HOUSES = [Gryffindor, Slytherin, Ravenclaw, Hufflepuff]"

text \<open>The property name a house stands for in the \<open>points\<close> object.\<close>

fun house_key :: "House \<Rightarrow> jsstring" where
  "house_key Gryffindor = lit ''Gryffindor''"
| "house_key Slytherin = lit ''Slytherin''"
| "house_key Ravenclaw = lit ''Ravenclaw''"
| "house_key Hufflepuff = lit ''Hufflepuff''"

text \<open>
  The value of a property of the \<open>points\<close> object. \<open>Num n\<close> is the number \<open>n\<close>, an integer;
  \<open>NaN\<close> is the number of that name; \<open>Untracked\<close> stands for every value the model does
  not follow: a fraction, an infinity, a string, and the rounded result of a sum that
  leaves the range in which the doubles hold every integer.
\<close>

datatype jsval = Num int | NaN | Untracked

text \<open>Up to this magnitude every integer is a double, and a sum of two such is exact.\<close>

definition SAFE :: int where
  "SAFE = 2 ^ 53"

text \<open>
  \<open>v + d\<close> for a property value \<open>v\<close> and an integer \<open>d\<close>: exact inside the safe range, \<open>NaN\<close>
  for \<open>NaN\<close>, and not followed otherwise.
\<close>

definition js_add :: "jsval \<Rightarrow> int \<Rightarrow> jsval" where
  "js_add v d =
     (case v of
        Num a \<Rightarrow> if \<bar>a\<bar> \<le> SAFE \<and> \<bar>d\<bar> \<le> SAFE \<and> \<bar>a + d\<bar> \<le> SAFE then Num (a + d) else Untracked
      | NaN \<Rightarrow> NaN
      | Untracked \<Rightarrow> Untracked)"

text \<open>
  \<open>PointsState\<close> is declared \<open>Record<House, number>\<close>, but at run time it is whatever
  value \<open>JSON.parse\<close> or the remote row delivered: the casts \<open>as PointsState\<close> check
  nothing. The value is modelled by its own enumerable properties, a map from property
  names to values with any set of keys; a value that is not an object, such as \<open>0\<close>, has
  none.
\<close>

type_synonym PointsState = "jsstring \<rightharpoonup> jsval"

record HistoryEntry =
  entry_id :: jsstring
  house :: House
  delta :: int
  reason :: "jsstring option"
  timestamp :: int

text \<open>
  The field \<open>backend\<close>: \<open>"local"\<close>, \<open>"supabase"\<close>, or any other truthy value, which the
  cast \<open>as Backend\<close> lets through.
\<close>

datatype Backend = LocalBackend | SupabaseBackend | OtherBackend

datatype Theme = Light | Dark

datatype NetStatus = Offline | Online | Syncing

record AppState =
  points :: PointsState
  history :: "HistoryEntry list"
  theme :: Theme
  bgUrl :: jsstring
  room :: jsstring
  backend :: Backend

definition MAX_HISTORY :: nat where
  "MAX_HISTORY = 200"

text \<open>The object literal \<open>{ Gryffindor: 0, Slytherin: 0, Ravenclaw: 0, Hufflepuff: 0 }\<close>.\<close>

definition zero_points :: PointsState where
  "zero_points =
     [lit ''Gryffindor'' \<mapsto> Num 0, lit ''Slytherin'' \<mapsto> Num 0, lit ''Ravenclaw'' \<mapsto> Num 0,
      lit ''Hufflepuff'' \<mapsto> Num 0]"

text \<open>The keys of \<open>HOUSES\<close>: what "exactly the four category keys" means for a points object.\<close>

definition house_keys :: "jsstring set" where
  "house_keys = set (map house_key HOUSES)"

datatype exn = Error jsstring | SyntaxError | TypeError | StorageException

section \<open>Local persistence: \<open>readLocal\<close> and \<open>writeLocal\<close>\<close>

text \<open>
  What \<open>readLocal\<close> can observe of the value \<open>JSON.parse\<close> returned. Each field records
  the outcome of the test the code applies to it:
  \<^item> \<open>d_points\<close>: \<open>None\<close> when \<open>data.points\<close> is \<open>null\<close> or \<open>undefined\<close> (the case \<open>??\<close>
    replaces), otherwise the value stored there, whatever it is;
  \<^item> \<open>d_history\<close>: \<open>None\<close> when \<open>Array.isArray(data.history)\<close> is false;
  \<^item> \<open>d_theme\<close>: \<open>None\<close> when \<open>data.theme\<close> is not a string;
  \<^item> \<open>d_bgUrl\<close>: \<open>None\<close> when \<open>typeof data.bgUrl\<close> is not \<open>"string"\<close>;
  \<^item> \<open>d_room\<close>: a string, another falsy value, or a truthy value that is not a string
    (on which \<open>sanitizeRoom\<close> calls a missing \<open>toLowerCase\<close> and throws);
  \<^item> \<open>d_backend\<close>: \<open>None\<close> when \<open>data.backend\<close> is falsy, otherwise the value stored.
\<close>

datatype room_field = RoomString jsstring | RoomFalsy | RoomTruthyOther

record StoredData =
  d_points :: "PointsState option"
  d_history :: "HistoryEntry list option"
  d_theme :: "jsstring option"
  d_bgUrl :: "jsstring option"
  d_room :: room_field
  d_backend :: "Backend option"

text \<open>
  The value of \<open>JSON.parse(raw)\<close>: \<open>null\<close>, on which every property access throws, or a
  value whose properties can be read (an object; a number, string, boolean or array reads
  as an object with none of the six properties).
\<close>

datatype parsed = JsonNull | JsonData StoredData

text \<open>
  The surroundings of \<open>readLocal\<close>: the outcome of \<open>localStorage.getItem(LS_KEY)\<close> (an
  exception, \<open>null\<close> as \<open>None\<close>, or the stored text), \<open>JSON.parse\<close>, the \<open>room\<close> parameter
  of the page address, the module constant \<open>supabaseReady\<close>, and the built-in
  \<open>toLowerCase\<close> that \<open>sanitizeRoom\<close> calls.
\<close>

record Env =
  getItem :: "exn + jsstring option"
  JSON_parse :: "jsstring \<Rightarrow> exn + parsed"
  url_param :: "jsstring option"
  supabaseReady :: bool
  toLowerCase :: "jsstring \<Rightarrow> jsstring"

definition default_backend :: "bool \<Rightarrow> Backend" where
  "default_backend ready = (if ready then SupabaseBackend else LocalBackend)"

text \<open>\<open>a || b\<close> on strings: the empty string is the only falsy one.\<close>

definition str_or :: "jsstring \<Rightarrow> jsstring \<Rightarrow> jsstring" where
  "str_or a b = (if a \<noteq> [] then a else b)"

text \<open>\<open>sanitizeRoom(data.room || getRoomFromURL() || "demo")\<close>, with the exception of the call.\<close>

definition stored_room ::
  "(jsstring \<Rightarrow> jsstring) \<Rightarrow> room_field \<Rightarrow> jsstring option \<Rightarrow> exn + jsstring" where
  "stored_room toLower r param =
     (case r of
        RoomTruthyOther \<Rightarrow> Inl TypeError
      | RoomFalsy \<Rightarrow>
          Inr (sanitizeRoom toLower (str_or (getRoomFromURL toLower param) (lit ''demo'')))
      | RoomString s \<Rightarrow>
          Inr (sanitizeRoom toLower
                (str_or (str_or s (getRoomFromURL toLower param)) (lit ''demo''))))"

text \<open>
  The record the \<open>try\<close> block returns, from the parsed value \<open>d\<close> and the room \<open>rm\<close>:
  \<^verbatim>\<open>points = data.points ?? { Gryffindor: 0, ... }\<close>,
  \<^verbatim>\<open>history = Array.isArray(data.history) ? data.history.slice(0, MAX_HISTORY) : []\<close>,
  \<^verbatim>\<open>theme = data.theme === "light" ? "light" : "dark"\<close>,
  \<^verbatim>\<open>bgUrl = typeof data.bgUrl === "string" ? data.bgUrl : ""\<close>,
  \<^verbatim>\<open>backend = data.backend || (supabaseReady ? "supabase" : "local")\<close>.
\<close>

definition loaded_state :: "Env \<Rightarrow> StoredData \<Rightarrow> jsstring \<Rightarrow> AppState" where
  "loaded_state env d rm =
     \<lparr> points = (case d_points d of None \<Rightarrow> zero_points | Some p \<Rightarrow> p),
       history = (case d_history d of None \<Rightarrow> [] | Some h \<Rightarrow> take MAX_HISTORY h),
       theme = (if d_theme d = Some (lit ''light'') then Light else Dark),
       bgUrl = (case d_bgUrl d of None \<Rightarrow> [] | Some u \<Rightarrow> u),
       room = rm,
       backend = (case d_backend d of None \<Rightarrow> default_backend (supabaseReady env)
                  | Some b \<Rightarrow> b) \<rparr>"

text \<open>
  The body of the \<open>try\<close> block of \<open>readLocal\<close>; \<open>Inl\<close> is an exception thrown in it:
  by \<open>getItem\<close>, by \<open>throw new Error("no data")\<close> when \<open>raw\<close> is \<open>null\<close> or empty, by
  \<open>JSON.parse\<close>, by reading a property of \<open>null\<close>, or by \<open>sanitizeRoom\<close>.
\<close>

definition readLocal_try :: "Env \<Rightarrow> exn + AppState" where
  "readLocal_try env =
     (case getItem env of
        Inl e \<Rightarrow> Inl e
      | Inr None \<Rightarrow> Inl (Error (lit ''no data''))
      | Inr (Some raw) \<Rightarrow>
          if raw = [] then Inl (Error (lit ''no data''))
          else
            (case JSON_parse env raw of
               Inl e \<Rightarrow> Inl e
             | Inr JsonNull \<Rightarrow> Inl TypeError
             | Inr (JsonData d) \<Rightarrow>
                 (case stored_room (toLowerCase env) (d_room d) (url_param env) of
                    Inl e \<Rightarrow> Inl e
                  | Inr rm \<Rightarrow> Inr (loaded_state env d rm))))"

text \<open>The \<open>catch\<close> block of \<open>readLocal\<close>: the default snapshot.\<close>

definition default_state :: "Env \<Rightarrow> AppState" where
  "default_state env =
     \<lparr> points = zero_points, history = [], theme = Dark, bgUrl = [],
       room = sanitizeRoom (toLowerCase env)
                (str_or (getRoomFromURL (toLowerCase env) (url_param env)) (lit ''demo'')),
       backend = default_backend (supabaseReady env) \<rparr>"

text \<open>
  \<open>readLocal\<close>: the \<open>try\<close> block, and the \<open>catch\<close> block on any exception. The result is
  still a sum, so that "never raises" is a statement about the function and not about
  its type.
\<close>

definition readLocal :: "Env \<Rightarrow> exn + AppState" where
  "readLocal env =
     (case readLocal_try env of
        Inr s \<Rightarrow> Inr s
      | Inl _ \<Rightarrow> Inr (default_state env))"

text \<open>
  \<open>writeLocal\<close> builds \<open>toSave\<close> with the history cut to \<open>MAX_HISTORY\<close>, serialises it and
  calls \<open>localStorage.setItem\<close>, whose exception it throws again. \<open>accepts\<close> says whether
  the store takes the record (it does not when the quota is exceeded).
\<close>

definition writeLocal :: "(AppState \<Rightarrow> bool) \<Rightarrow> AppState \<Rightarrow> exn + AppState" where
  "writeLocal accepts st =
     (let toSave = \<lparr> points = points st, history = take MAX_HISTORY (history st),
                      theme = theme st, bgUrl = bgUrl st, room = room st,
                      backend = backend st \<rparr>
      in if accepts toSave then Inr toSave else Inl StorageException)"

section \<open>Actions: \<open>applyDelta\<close>, \<open>onAdd\<close>, \<open>resetAll\<close>\<close>

text \<open>
  The code units \<open>String.prototype.trim\<close> removes, the white space and line terminators
  of the language: tab, line feed, vertical tab, form feed, carriage return, space,
  U+00A0, U+1680, U+2000 to U+200A, U+2028, U+2029, U+202F, U+205F, U+3000 and U+FEFF.
\<close>

definition is_space :: "nat \<Rightarrow> bool" where
  "is_space c =
     (c \<in> {9, 10, 11, 12, 13, 32, 160, 5760, 8232, 8233, 8239, 8287, 12288, 65279}
      \<or> (8192 \<le> c \<and> c \<le> 8202))"

definition trim :: "jsstring \<Rightarrow> jsstring" where
  "trim s = rev (dropWhile is_space (rev (dropWhile is_space s)))"

text \<open>\<open>(why || "").trim() || undefined\<close>; \<open>why\<close> is an optional argument.\<close>

definition entry_reason :: "jsstring option \<Rightarrow> jsstring option" where
  "entry_reason why =
     (let t = trim (case why of None \<Rightarrow> [] | Some w \<Rightarrow> w)
      in if t = [] then None else Some t)"

text \<open>\<open>prev.points[target]\<close>: a missing property reads \<open>undefined\<close>, and \<open>undefined + delta\<close> is \<open>NaN\<close>.\<close>

definition points_plus :: "PointsState \<Rightarrow> jsstring \<Rightarrow> int \<Rightarrow> jsval" where
  "points_plus p k d = (case p k of None \<Rightarrow> NaN | Some v \<Rightarrow> js_add v d)"

text \<open>
  The updater \<open>applyDelta\<close> passes to \<open>setState\<close>. \<open>uid\<close> is the value of \<open>uuid()\<close> and
  \<open>now\<close> that of \<open>Date.now()\<close>. There is no test of \<open>delta\<close> in it.
\<close>

definition applyDelta ::
  "jsstring \<Rightarrow> int \<Rightarrow> House \<Rightarrow> int \<Rightarrow> jsstring option \<Rightarrow> AppState \<Rightarrow> AppState" where
  "applyDelta uid now target dlt why prev =
     (let nextPoints = (points prev)(house_key target \<mapsto> points_plus (points prev) (house_key target) dlt);
          entry = \<lparr> entry_id = uid, house = target, delta = dlt, reason = entry_reason why,
                    timestamp = now \<rparr>;
          nextHistory = take MAX_HISTORY (entry # history prev)
      in prev\<lparr> points := nextPoints, history := nextHistory \<rparr>)"

text \<open>
  The state \<open>amount\<close>, set from \<open>parseInt\<close>: a finite number, which is then an integer, or
  a value that \<open>Number.isFinite\<close> rejects (\<open>NaN\<close> or an infinity).
\<close>

datatype amount_value = Finite int | NotFinite

text \<open>The form fields \<open>onAdd\<close> reads: the selected house, the amount and the reason.\<close>

record Form =
  sel_house :: House
  amount :: amount_value
  reason_text :: jsstring

datatype Sign = Plus | Minus

fun sign_val :: "Sign \<Rightarrow> int" where
  "sign_val Plus = 1"
| "sign_val Minus = - 1"

text \<open>\<open>Number.isFinite(amount) ? Math.floor(Math.abs(amount)) : 0\<close>.\<close>

definition coerce_amount :: "amount_value \<Rightarrow> int" where
  "coerce_amount a = (case a of Finite n \<Rightarrow> \<bar>n\<bar> | NotFinite \<Rightarrow> 0)"

text \<open>
  \<open>onAdd\<close>: returns without calling \<open>applyDelta\<close> when the coerced amount is zero;
  otherwise applies the signed amount and clears the reason field.
\<close>

definition onAdd :: "jsstring \<Rightarrow> int \<Rightarrow> Sign \<Rightarrow> Form \<times> AppState \<Rightarrow> Form \<times> AppState" where
  "onAdd uid now sg fs =
     (let form = fst fs; amt = coerce_amount (amount form)
      in if amt = 0 then fs
         else (form\<lparr> reason_text := [] \<rparr>,
               applyDelta uid now (sel_house form) (sign_val sg * amt)
                 (Some (reason_text form)) (snd fs)))"

text \<open>
  The quick buttons of a house card:
  \<^verbatim>\<open>applyDelta(h, +5, "Schnellaktion")\<close> and \<^verbatim>\<open>applyDelta(h, -5, "Schnellaktion")\<close>.
  With \<open>onAdd\<close> these are the only calls of \<open>applyDelta\<close>.
\<close>

definition quickAction :: "jsstring \<Rightarrow> int \<Rightarrow> House \<Rightarrow> Sign \<Rightarrow> AppState \<Rightarrow> AppState" where
  "quickAction uid now h sg prev =
     applyDelta uid now h (sign_val sg * 5) (Some (lit ''Schnellaktion'')) prev"

text \<open>\<open>resetAll\<close>; \<open>confirmed\<close> is the answer of the \<open>confirm\<close> dialogue.\<close>

definition resetAll :: "bool \<Rightarrow> AppState \<Rightarrow> AppState" where
  "resetAll confirmed prev =
     (if \<not> confirmed then prev else prev\<lparr> points := zero_points, history := [] \<rparr>)"

section \<open>The synchronisation effects\<close>

text \<open>
  A row of the remote table \<open>games\<close>. A timestamp (\<open>updated_at\<close>, and the content of
  \<open>lastRemoteRef\<close>) is the instant in milliseconds that \<open>new Date(s)\<close> gives for the ISO
  string: the code compares two timestamps only as such \<open>Date\<close> values. Strings that
  \<open>Date\<close> cannot read, and rows whose \<open>history\<close> is not an array (on which \<open>slice\<close>
  would throw), are outside the model.
\<close>

record RemoteRow =
  row_id :: jsstring
  row_points :: PointsState
  row_history :: "HistoryEntry list"
  updated_at :: int

text \<open>
  A pending \<open>setTimeout\<close> of the debounced upsert effect: when it is due, and the values of
  \<open>room\<close>, \<open>points\<close> and \<open>history\<close> its callback closed over.
\<close>

record Pending =
  due :: int
  p_room :: jsstring
  p_points :: PointsState
  p_history :: "HistoryEntry list"

text \<open>
  The component: its state, the ref \<open>lastRemoteRef\<close> (\<open>None\<close> is \<open>null\<close>), the network
  status, the pending timeout, the wall clock, the rows handed to \<open>upsert\<close> so far (oldest
  first), the number of upserts whose \<open>await\<close> has not returned, and \<open>supabaseReady\<close>.
\<close>

record Engine =
  state :: AppState
  lastRemoteRef :: "int option"
  net :: NetStatus
  timer :: "Pending option"
  clock :: int
  outbox :: "RemoteRow list"
  awaiting :: nat
  ready :: bool

definition effectiveBackend :: "Engine \<Rightarrow> Backend" where
  "effectiveBackend e =
     (if backend (state e) = SupabaseBackend \<and> \<not> ready e then LocalBackend
      else backend (state e))"

text \<open>
  The negation of the guard that opens the subscription effect and the upsert effect:
  \<^verbatim>\<open>if (effectiveBackend !== "supabase" || !supabaseReady || !supabase || !room) return;\<close>
\<close>

definition sync_active :: "Engine \<Rightarrow> bool" where
  "sync_active e =
     (effectiveBackend e = SupabaseBackend \<and> ready e \<and> room (state e) \<noteq> [])"

definition DEBOUNCE :: nat where
  "DEBOUNCE = 400"

text \<open>
  The debounced upsert effect, run after a render in which \<open>points\<close>, \<open>history\<close>,
  \<open>effectiveBackend\<close> or \<open>room\<close> changed: the cleanup of the previous run clears its
  timeout, then a new timeout is set unless the guard returns first.
\<close>

definition upsert_effect :: "Engine \<Rightarrow> Engine" where
  "upsert_effect e =
     (let cleared = e\<lparr> timer := None \<rparr>
      in if \<not> sync_active e then cleared
         else cleared\<lparr> timer := Some \<lparr> due = clock e + int DEBOUNCE, p_room = room (state e),
                                        p_points = points (state e),
                                        p_history = history (state e) \<rparr> \<rparr>)"

text \<open>
  The timeout's callback up to its \<open>await\<close>: the status becomes \<open>syncing\<close> and the row is
  handed to \<open>upsert\<close>, stamped with the clock. \<open>lastRemoteRef\<close> is not assigned here.
\<close>

definition timer_callback :: "Pending \<Rightarrow> Engine \<Rightarrow> Engine" where
  "timer_callback p e =
     e\<lparr> net := Syncing,
        outbox := outbox e @ [\<lparr> row_id = p_room p, row_points = p_points p,
                                row_history = p_history p, updated_at = clock e \<rparr>],
        timer := None,
        awaiting := Suc (awaiting e) \<rparr>"

text \<open>
  The rest of the callback, after \<open>await\<close> has returned:
  \<^verbatim>\<open>lastRemoteRef.current = new Date().toISOString(); setNet("online");\<close>
\<close>

definition upsert_resume :: "Engine \<Rightarrow> Engine" where
  "upsert_resume e = e\<lparr> lastRemoteRef := Some (clock e), net := Online \<rparr>"

text \<open>
  A \<open>setState\<close> whose updater returns new \<open>points\<close> and \<open>history\<close> objects, the render, and
  the upsert effect that the changed dependencies run again.
\<close>

definition set_shared :: "(AppState \<Rightarrow> AppState) \<Rightarrow> Engine \<Rightarrow> Engine" where
  "set_shared f e = upsert_effect (e\<lparr> state := f (state e) \<rparr>)"

text \<open>The updater of the initial load and of the subscription handler.\<close>

definition adopt :: "RemoteRow \<Rightarrow> AppState \<Rightarrow> AppState" where
  "adopt remote prev =
     prev\<lparr> points := row_points remote, history := take MAX_HISTORY (row_history remote) \<rparr>"

text \<open>
  The handler of the realtime subscription; its argument is \<open>payload?.new\<close>, \<open>None\<close> when
  that is missing.
  \<^verbatim>\<open>if (!lastRemoteRef.current || new Date(remote.updated_at) > new Date(lastRemoteRef.current))\<close>
\<close>

definition on_change :: "RemoteRow option \<Rightarrow> Engine \<Rightarrow> Engine" where
  "on_change payload_new e =
     (case payload_new of
        None \<Rightarrow> e
      | Some remote \<Rightarrow>
          if (case lastRemoteRef e of None \<Rightarrow> True | Some t0 \<Rightarrow> updated_at remote > t0)
          then set_shared (adopt remote) (e\<lparr> lastRemoteRef := Some (updated_at remote) \<rparr>)
          else e)"

text \<open>The initial load up to its \<open>await\<close>.\<close>

definition initial_load_start :: "Engine \<Rightarrow> Engine" where
  "initial_load_start e =
     (if effectiveBackend e \<noteq> SupabaseBackend \<or> \<not> ready e then e\<lparr> net := Offline \<rparr>
      else if room (state e) = [] then e
      else e\<lparr> net := Syncing \<rparr>)"

text \<open>
  The initial load after its \<open>await\<close>; the argument is the row when \<open>!error && data\<close>
  holds, \<open>None\<close> otherwise. The timestamp of the row is taken without comparison.
\<close>

definition initial_load_resume :: "RemoteRow option \<Rightarrow> Engine \<Rightarrow> Engine" where
  "initial_load_resume res e =
     (case res of
        None \<Rightarrow> e\<lparr> net := Online \<rparr>
      | Some data \<Rightarrow>
          (set_shared (adopt data) (e\<lparr> lastRemoteRef := Some (updated_at data) \<rparr>))
            \<lparr> net := Online \<rparr>)"

text \<open>
  Time passes by \<open>d\<close> milliseconds. A timeout that falls due in that span runs its
  callback at the moment it is due.
\<close>

definition advance :: "nat \<Rightarrow> Engine \<Rightarrow> Engine" where
  "advance d e =
     (let t = clock e + int d
      in case timer e of
           None \<Rightarrow> e\<lparr> clock := t \<rparr>
         | Some p \<Rightarrow>
             if due p \<le> t
             then (timer_callback p (e\<lparr> clock := max (clock e) (due p) \<rparr>))\<lparr> clock := t \<rparr>
             else e\<lparr> clock := t \<rparr>)"

section \<open>Events\<close>

datatype mutation = ApplyDelta jsstring House int "jsstring option" | ResetConfirmed

fun reduce :: "int \<Rightarrow> mutation \<Rightarrow> AppState \<Rightarrow> AppState" where
  "reduce now (ApplyDelta uid target dlt why) = applyDelta uid now target dlt why"
| "reduce now ResetConfirmed = resetAll True"

text \<open>
  What can happen to the component: a local mutation, time passing, a change event of the
  subscription, the return of an awaited upsert (\<open>True\<close>) or its rejection (\<open>False\<close>), and
  the return of the initial fetch. The channel of the subscription exists only while the
  guard of its effect holds, so a change event reaches the handler only then. A mutation
  reads \<open>Date.now()\<close> from the clock.
\<close>

datatype event =
    Mutate mutation
  | Advance nat
  | Change "RemoteRow option"
  | UpsertSettled bool
  | Loaded "RemoteRow option"

fun step :: "Engine \<Rightarrow> event \<Rightarrow> Engine" where
  "step e (Mutate m) = set_shared (reduce (clock e) m) e"
| "step e (Advance d) = advance d e"
| "step e (Change payload_new) = (if sync_active e then on_change payload_new e else e)"
| "step e (UpsertSettled ok) =
     (if awaiting e = 0 then e
      else if ok then upsert_resume (e\<lparr> awaiting := awaiting e - 1 \<rparr>)
      else e\<lparr> awaiting := awaiting e - 1 \<rparr>)"
| "step e (Loaded res) = initial_load_resume res e"

definition run :: "Engine \<Rightarrow> event list \<Rightarrow> Engine" where
  "run e evs = foldl step e evs"

text \<open>A burst: each mutation followed by the time until the next one.\<close>

fun burst :: "(mutation \<times> nat) list \<Rightarrow> event list" where
  "burst [] = []"
| "burst ((m, d) # ms) = Mutate m # Advance d # burst ms"

section \<open>Auxiliary definitions and example values\<close>

text \<open>The string \<open>sanitizeRoom\<close> computes before the default is substituted.\<close>

definition room_core :: "(jsstring \<Rightarrow> jsstring) \<Rightarrow> jsstring \<Rightarrow> jsstring" where
  "room_core toLower s = take 64 (filter room_char (toLower s))"

text \<open>
  A lower-casing for the examples: the ASCII letters, the Kelvin sign U+212A, which
  becomes \<open>k\<close>, and U+0130, which becomes \<open>i\<close> followed by U+0307; every other code unit
  is kept.
\<close>

definition example_lower_unit :: "nat \<Rightarrow> jsstring" where
  "example_lower_unit c =
     (if is_upper c then [c + 32]
      else if c = 8490 then [107]
      else if c = 304 then [105, 775]
      else [c])"

definition example_toLowerCase :: "jsstring \<Rightarrow> jsstring" where
  "example_toLowerCase s = concat (map example_lower_unit s)"

text \<open>Concrete values on which the theorems below are instantiated.\<close>

definition example_entry :: HistoryEntry where
  "example_entry = \<lparr> entry_id = lit ''e1'', house = Slytherin, delta = 5, reason = None,
                      timestamp = 500 \<rparr>"

definition example_state :: AppState where
  "example_state = \<lparr> points = zero_points, history = [], theme = Dark, bgUrl = [],
                      room = lit ''demo'', backend = SupabaseBackend \<rparr>"

definition example_engine :: Engine where
  "example_engine = \<lparr> state = example_state, lastRemoteRef = Some 1000, net = Online,
                       timer = None, clock = 1000, outbox = [], awaiting = 0, ready = True \<rparr>"

definition example_row :: "int \<Rightarrow> RemoteRow" where
  "example_row t = \<lparr> row_id = lit ''demo'', row_points = zero_points(lit ''Slytherin'' \<mapsto> Num 5),
                      row_history = [example_entry], updated_at = t \<rparr>"

definition partial_raw :: jsstring where
  \<open>partial_raw = lit ''{"points":{"Gryffindor":1}}''\<close>

definition partial_data :: StoredData where
  "partial_data = \<lparr> d_points = Some [lit ''Gryffindor'' \<mapsto> Num 1], d_history = None,
                     d_theme = None, d_bgUrl = None, d_room = RoomFalsy, d_backend = None \<rparr>"

definition bad_room_raw :: jsstring where
  \<open>bad_room_raw = lit ''{"points":{"Gryffindor":1},"room":5}''\<close>

definition number_points_raw :: jsstring where
  \<open>number_points_raw = lit ''{"points":0}''\<close>

definition empty_data :: StoredData where
  "empty_data = \<lparr> d_points = None, d_history = None, d_theme = None, d_bgUrl = None,
                   d_room = RoomFalsy, d_backend = None \<rparr>"

text \<open>A stand-in for \<open>JSON.parse\<close> that knows six texts and rejects every other one.\<close>

definition example_parse :: "jsstring \<Rightarrow> exn + parsed" where
  "example_parse raw =
     (if raw = partial_raw then Inr (JsonData partial_data)
      else if raw = lit ''{}'' then Inr (JsonData empty_data)
      else if raw = bad_room_raw then Inr (JsonData (partial_data\<lparr> d_room := RoomTruthyOther \<rparr>))
      else if raw = number_points_raw then Inr (JsonData (empty_data\<lparr> d_points := Some Map.empty \<rparr>))
      else if raw = lit ''null'' then Inr JsonNull
      else Inl SyntaxError)"

definition example_env :: "exn + jsstring option \<Rightarrow> Env" where
  "example_env item = \<lparr> getItem = item, JSON_parse = example_parse, url_param = None,
                         supabaseReady = False, toLowerCase = example_toLowerCase \<rparr>"

section \<open>Room binding is a normal form\<close>

lemma lower_casing_no_upper: "lower_casing toLower \<Longrightarrow> c \<in> set (toLower s) \<Longrightarrow> \<not> is_upper c"
  by (auto simp: lower_casing_def list_all_iff)

lemma lower_casing_fix: "lower_casing toLower \<Longrightarrow> list_all room_char_lc s \<Longrightarrow> toLower s = s"
  by (simp add: lower_casing_def)

lemma room_char_lc_room: "room_char_lc c \<Longrightarrow> room_char c"
  by (auto simp: room_char_def room_char_lc_def)

lemma room_char_not_upper: "\<not> is_upper c \<Longrightarrow> room_char c = room_char_lc c"
  by (simp add: room_char_def room_char_lc_def)

lemma filter_room_lower:
  assumes "lower_casing toLower"
  shows "filter room_char (toLower s) = filter room_char_lc (toLower s)"
proof (rule filter_cong)
  show "toLower s = toLower s" by simp
next
  fix c assume "c \<in> set (toLower s)"
  then have "\<not> is_upper c" by (rule lower_casing_no_upper [OF assms])
  then show "room_char c = room_char_lc c" by (rule room_char_not_upper)
qed

lemma sanitizeRoom_core:
  "sanitizeRoom toLower s = (if room_core toLower s = [] then lit ''demo'' else room_core toLower s)"
  by (simp add: sanitizeRoom_def room_core_def Let_def)

lemma core_chars:
  assumes "lower_casing toLower" "c \<in> set (room_core toLower s)"
  shows "room_char_lc c"
proof -
  from assms(2) have "c \<in> set (filter room_char_lc (toLower s))"
    unfolding room_core_def filter_room_lower [OF assms(1)] by (rule in_set_takeD)
  then show ?thesis by simp
qed

lemma core_fix:
  assumes "lower_casing toLower" "list_all room_char_lc r" "length r \<le> 64"
  shows "room_core toLower r = r"
proof -
  have "toLower r = r" by (rule lower_casing_fix [OF assms(1,2)])
  moreover have "filter room_char r = r"
    using assms(2) by (simp add: list_all_iff room_char_lc_room)
  ultimately show ?thesis using assms(3) by (simp add: room_core_def)
qed

lemma core_idem:
  assumes "lower_casing toLower"
  shows "room_core toLower (room_core toLower s) = room_core toLower s"
proof (rule core_fix [OF assms])
  show "list_all room_char_lc (room_core toLower s)"
    using core_chars [OF assms] by (simp add: list_all_iff)
  show "length (room_core toLower s) \<le> 64" by (simp add: room_core_def)
qed

lemma demo_chars: "list_all room_char_lc (lit ''demo'')"
  by (simp add: lit_def room_char_lc_def is_lower_def)

lemma demo_fix:
  assumes "lower_casing toLower"
  shows "sanitizeRoom toLower (lit ''demo'') = lit ''demo''"
proof -
  have "room_core toLower (lit ''demo'') = lit ''demo''"
    by (rule core_fix [OF assms demo_chars]) (simp add: lit_def)
  then show ?thesis by (simp add: sanitizeRoom_core lit_def)
qed

lemma sanitize_idem:
  assumes "lower_casing toLower"
  shows "sanitizeRoom toLower (sanitizeRoom toLower s) = sanitizeRoom toLower s"
proof (cases "room_core toLower s = []")
  case True
  then show ?thesis by (simp add: sanitizeRoom_core [of toLower s] demo_fix [OF assms])
next
  case False
  then have "sanitizeRoom toLower s = room_core toLower s" by (simp add: sanitizeRoom_core)
  moreover have "sanitizeRoom toLower (room_core toLower s) = room_core toLower s"
    using False by (simp add: sanitizeRoom_core [of toLower "room_core toLower s"] core_idem [OF assms])
  ultimately show ?thesis by simp
qed

lemma sanitize_chars:
  assumes "lower_casing toLower"
  shows "list_all room_char_lc (sanitizeRoom toLower s)"
proof (cases "room_core toLower s = []")
  case True
  with demo_chars show ?thesis by (simp add: sanitizeRoom_core)
next
  case False
  then show ?thesis using core_chars [OF assms, of _ s] by (simp add: sanitizeRoom_core list_all_iff)
qed

lemma example_unit_no_upper: "c' \<in> set (example_lower_unit c) \<Longrightarrow> \<not> is_upper c'"
  by (auto simp: example_lower_unit_def is_upper_def split: if_splits)

lemma example_unit_fix: "room_char_lc c \<Longrightarrow> example_lower_unit c = [c]"
  by (auto simp: example_lower_unit_def room_char_lc_def is_upper_def is_lower_def is_digit_def)

lemma example_lower_casing: "lower_casing example_toLowerCase"
proof -
  have a: "list_all (\<lambda>c. \<not> is_upper c) (example_toLowerCase s)" for s
    using example_unit_no_upper by (auto simp: example_toLowerCase_def list_all_iff)
  have b: "list_all room_char_lc s \<longrightarrow> example_toLowerCase s = s" for s
    by (induction s) (simp_all add: example_toLowerCase_def example_unit_fix)
  from a b show ?thesis by (simp add: lower_casing_def)
qed

text \<open>
  Claim C7. \<open>sanitizeRoom\<close> is a total function on strings. Whatever \<open>toLowerCase\<close> does
  beyond the two facts of \<open>lower_casing\<close>, \<open>sanitizeRoom\<close> lower-cases, keeps only the
  characters of \<open>[a-z0-9_-]\<close>, cuts the result to 64 characters and returns \<open>"demo"\<close> when
  nothing is left, in particular for the empty string and for a string whose lower case
  has no allowed character; its result is never empty, and applying it twice gives the
  same as applying it once.
\<close>

theorem sanitizeRoom_normalizes:
  assumes "lower_casing toLower"
  shows "sanitizeRoom toLower s =
     (let r = take 64 (filter room_char_lc (toLower s)) in if r = [] then lit ''demo'' else r)
   \<and> list_all room_char_lc (sanitizeRoom toLower s)
   \<and> length (sanitizeRoom toLower s) \<le> 64
   \<and> sanitizeRoom toLower s \<noteq> []
   \<and> sanitizeRoom toLower [] = lit ''demo''
   \<and> (filter room_char_lc (toLower s) = [] \<longrightarrow> sanitizeRoom toLower s = lit ''demo'')
   \<and> sanitizeRoom toLower (sanitizeRoom toLower s) = sanitizeRoom toLower s"
proof -
  have a: "sanitizeRoom toLower s =
     (let r = take 64 (filter room_char_lc (toLower s)) in if r = [] then lit ''demo'' else r)"
    by (simp add: sanitizeRoom_def filter_room_lower [OF assms])
  have b: "length (sanitizeRoom toLower s) \<le> 64"
    by (simp add: sanitizeRoom_def Let_def lit_def)
  have c: "sanitizeRoom toLower s \<noteq> []"
    by (simp add: sanitizeRoom_def Let_def lit_def)
  have "toLower [] = []" by (rule lower_casing_fix [OF assms]) simp
  then have d: "sanitizeRoom toLower [] = lit ''demo''"
    by (simp add: sanitizeRoom_def)
  have e: "filter room_char_lc (toLower s) = [] \<longrightarrow> sanitizeRoom toLower s = lit ''demo''"
    by (simp add: a)
  from a sanitize_chars [OF assms] b c d e sanitize_idem [OF assms] show ?thesis by blast
qed

theorem sanitizeRoom_normalizes_witness:
  "lower_casing example_toLowerCase
   \<and> sanitizeRoom example_toLowerCase (lit ''  KLasse7A !!!  '') = lit ''klasse7a''
   \<and> sanitizeRoom example_toLowerCase (sanitizeRoom example_toLowerCase (lit ''  KLasse7A !!!  ''))
       = lit ''klasse7a''
   \<and> sanitizeRoom example_toLowerCase [8490] = lit ''k''
   \<and> sanitizeRoom example_toLowerCase (sanitizeRoom example_toLowerCase [8490]) = lit ''k''
   \<and> sanitizeRoom example_toLowerCase [73, 304] = lit ''ii''
   \<and> filter room_char_lc (example_toLowerCase (lit ''!? '')) = []
   \<and> sanitizeRoom example_toLowerCase (lit ''!? '') = lit ''demo''"
proof -
  note th = sanitizeRoom_normalizes [OF example_lower_casing]
  note ev = sanitizeRoom_def example_toLowerCase_def example_lower_unit_def room_char_def
    room_char_lc_def is_upper_def is_lower_def is_digit_def lit_def
  have v: "sanitizeRoom example_toLowerCase (lit ''  KLasse7A !!!  '') = lit ''klasse7a''"
    by (simp add: ev)
  have k: "sanitizeRoom example_toLowerCase [8490] = lit ''k''"
    by (simp add: ev)
  have i: "sanitizeRoom example_toLowerCase [73, 304] = lit ''ii''"
    by (simp add: ev)
  have h: "filter room_char_lc (example_toLowerCase (lit ''!? '')) = []"
    by (simp add: ev)
  from th [of "lit ''  KLasse7A !!!  ''"]
  have "sanitizeRoom example_toLowerCase (sanitizeRoom example_toLowerCase (lit ''  KLasse7A !!!  ''))
      = sanitizeRoom example_toLowerCase (lit ''  KLasse7A !!!  '')"
    by blast
  then have vv: "sanitizeRoom example_toLowerCase
      (sanitizeRoom example_toLowerCase (lit ''  KLasse7A !!!  '')) = lit ''klasse7a''"
    by (simp only: v)
  from th [of "[8490]"]
  have "sanitizeRoom example_toLowerCase (sanitizeRoom example_toLowerCase [8490])
      = sanitizeRoom example_toLowerCase [8490]"
    by blast
  then have kk: "sanitizeRoom example_toLowerCase (sanitizeRoom example_toLowerCase [8490]) = lit ''k''"
    by (simp only: k)
  from th [of "lit ''!? ''"] h
  have j: "sanitizeRoom example_toLowerCase (lit ''!? '') = lit ''demo''" by blast
  from example_lower_casing v vv k kk i h j show ?thesis by blast
qed

section \<open>Inbound merge\<close>

lemma history_adopt: "history (adopt r st) = take MAX_HISTORY (row_history r)"
  by (simp add: adopt_def)

lemma points_adopt: "points (adopt r st) = row_points r"
  by (simp add: adopt_def)

lemma state_upsert_effect: "state (upsert_effect e) = state e"
  by (simp add: upsert_effect_def Let_def)

lemma cursor_upsert_effect: "lastRemoteRef (upsert_effect e) = lastRemoteRef e"
  by (simp add: upsert_effect_def Let_def)

lemma state_set_shared: "state (set_shared f e) = f (state e)"
  by (simp add: set_shared_def state_upsert_effect)

lemma cursor_set_shared: "lastRemoteRef (set_shared f e) = lastRemoteRef e"
  by (simp add: set_shared_def cursor_upsert_effect)

lemma on_change_applied:
  assumes "case lastRemoteRef e of None \<Rightarrow> True | Some t0 \<Rightarrow> updated_at r > t0"
  shows "on_change (Some r) e = set_shared (adopt r) (e\<lparr> lastRemoteRef := Some (updated_at r) \<rparr>)"
  using assms by (simp add: on_change_def)

lemma on_change_applied_fields:
  assumes "case lastRemoteRef e of None \<Rightarrow> True | Some t0 \<Rightarrow> updated_at r > t0"
  shows "points (state (on_change (Some r) e)) = row_points r"
    and "history (state (on_change (Some r) e)) = take MAX_HISTORY (row_history r)"
    and "lastRemoteRef (on_change (Some r) e) = Some (updated_at r)"
  by (simp_all add: on_change_applied [OF assms] state_set_shared cursor_set_shared
      history_adopt points_adopt)

text \<open>
  Claim C1. With the cursor \<open>lastRemoteRef\<close> holding the time \<open>t0\<close>, an incoming row
  stamped later than \<open>t0\<close> replaces \<open>points\<close> and \<open>history\<close> (the history cut to 200) and
  moves the cursor to the row's stamp; a row stamped \<open>t0\<close> or earlier leaves the whole
  component, cursor included, as it was.
\<close>

theorem inbound_merge_lww:
  assumes "lastRemoteRef e = Some t0"
  shows "(updated_at r > t0 \<longrightarrow>
            points (state (on_change (Some r) e)) = row_points r
          \<and> history (state (on_change (Some r) e)) = take 200 (row_history r)
          \<and> lastRemoteRef (on_change (Some r) e) = Some (updated_at r))
       \<and> (updated_at r \<le> t0 \<longrightarrow> on_change (Some r) e = e)"
proof (intro conjI impI)
  assume gt: "updated_at r > t0"
  then have ap: "case lastRemoteRef e of None \<Rightarrow> True | Some t0 \<Rightarrow> updated_at r > t0"
    using assms by simp
  show "points (state (on_change (Some r) e)) = row_points r"
    by (rule on_change_applied_fields(1) [OF ap])
  show "history (state (on_change (Some r) e)) = take 200 (row_history r)"
    using on_change_applied_fields(2) [OF ap] by (simp add: MAX_HISTORY_def)
  show "lastRemoteRef (on_change (Some r) e) = Some (updated_at r)"
    by (rule on_change_applied_fields(3) [OF ap])
next
  assume "updated_at r \<le> t0"
  then show "on_change (Some r) e = e"
    using assms by (simp add: on_change_def)
qed

theorem inbound_merge_lww_witness:
  "lastRemoteRef example_engine = Some 1000
   \<and> updated_at (example_row 1001) > 1000
   \<and> points (state (on_change (Some (example_row 1001)) example_engine))
       = zero_points((lit ''Slytherin'') \<mapsto> Num 5)
   \<and> history (state (on_change (Some (example_row 1001)) example_engine)) = [example_entry]
   \<and> lastRemoteRef (on_change (Some (example_row 1001)) example_engine) = Some 1001
   \<and> updated_at (example_row 1000) \<le> 1000
   \<and> on_change (Some (example_row 1000)) example_engine = example_engine
   \<and> updated_at (example_row 999) \<le> 1000
   \<and> on_change (Some (example_row 999)) example_engine = example_engine"
proof -
  have c: "lastRemoteRef example_engine = Some 1000"
    by (simp add: example_engine_def)
  have r: "updated_at (example_row 1001) > 1000" "updated_at (example_row 1000) \<le> 1000"
    "updated_at (example_row 999) \<le> 1000"
    by (simp_all add: example_row_def)
  have v: "row_points (example_row 1001) = zero_points((lit ''Slytherin'') \<mapsto> Num 5)"
    "take 200 (row_history (example_row 1001)) = [example_entry]"
    "updated_at (example_row 1001) = 1001"
    by (simp_all add: example_row_def)
  from inbound_merge_lww [OF c, of "example_row 1001"] r(1) v
  have a: "points (state (on_change (Some (example_row 1001)) example_engine))
       = zero_points((lit ''Slytherin'') \<mapsto> Num 5)
   \<and> history (state (on_change (Some (example_row 1001)) example_engine)) = [example_entry]
   \<and> lastRemoteRef (on_change (Some (example_row 1001)) example_engine) = Some 1001"
    by simp
  from inbound_merge_lww [OF c, of "example_row 1000"] r(2)
  have b: "on_change (Some (example_row 1000)) example_engine = example_engine" by blast
  from inbound_merge_lww [OF c, of "example_row 999"] r(3)
  have d: "on_change (Some (example_row 999)) example_engine = example_engine" by blast
  from c r a b d show ?thesis by blast
qed

text \<open>
  Claim C10. While the cursor \<open>lastRemoteRef\<close> is still \<open>null\<close>, the subscription handler
  applies every incoming row, whatever its stamp: \<open>points\<close> and \<open>history\<close> are replaced and
  the cursor becomes the row's stamp.
\<close>

theorem inbound_merge_unset_cursor:
  assumes "lastRemoteRef e = None"
  shows "points (state (on_change (Some r) e)) = row_points r
       \<and> history (state (on_change (Some r) e)) = take 200 (row_history r)
       \<and> lastRemoteRef (on_change (Some r) e) = Some (updated_at r)"
proof -
  have ap: "case lastRemoteRef e of None \<Rightarrow> True | Some t0 \<Rightarrow> updated_at r > t0"
    using assms by simp
  show ?thesis
    using on_change_applied_fields [OF ap] by (simp add: MAX_HISTORY_def)
qed

theorem inbound_merge_unset_cursor_witness:
  "lastRemoteRef (example_engine\<lparr> lastRemoteRef := None \<rparr>) = None
   \<and> points (state (on_change (Some (example_row (- 5))) (example_engine\<lparr> lastRemoteRef := None \<rparr>)))
       = zero_points((lit ''Slytherin'') \<mapsto> Num 5)
   \<and> history (state (on_change (Some (example_row (- 5))) (example_engine\<lparr> lastRemoteRef := None \<rparr>)))
       = [example_entry]
   \<and> lastRemoteRef (on_change (Some (example_row (- 5))) (example_engine\<lparr> lastRemoteRef := None \<rparr>))
       = Some (- 5)"
proof -
  have c: "lastRemoteRef (example_engine\<lparr> lastRemoteRef := None \<rparr>) = None"
    by simp
  have v: "row_points (example_row (- 5)) = zero_points((lit ''Slytherin'') \<mapsto> Num 5)"
    "take 200 (row_history (example_row (- 5))) = [example_entry]"
    "updated_at (example_row (- 5)) = - 5"
    by (simp_all add: example_row_def)
  from inbound_merge_unset_cursor [OF c, of "example_row (- 5)"] v c show ?thesis
    by simp
qed

section \<open>Reading, writing and the bound on the history\<close>

lemma dom_zero_points: "dom zero_points = house_keys"
  by (auto simp: zero_points_def house_keys_def HOUSES_def)

lemma house_key_in: "house_key t \<in> house_keys"
  by (cases t) (simp_all add: house_keys_def HOUSES_def)

lemma dom_applyDelta:
  "dom (points (applyDelta uid now t d why st)) = insert (house_key t) (dom (points st))"
  by (simp add: applyDelta_def Let_def)

lemma history_applyDelta:
  "history (applyDelta uid now t d why st) =
     take MAX_HISTORY (\<lparr> entry_id = uid, house = t, delta = d, reason = entry_reason why,
                          timestamp = now \<rparr> # history st)"
  by (simp add: applyDelta_def Let_def)

lemma readLocal_total: "\<exists>s. readLocal env = Inr s"
  by (simp add: readLocal_def split: sum.splits)

lemma readLocal_caught: "readLocal_try env = Inl x \<Longrightarrow> readLocal env = Inr (default_state env)"
  by (simp add: readLocal_def)

lemma readLocal_data:
  assumes "getItem env = Inr (Some raw)" "raw \<noteq> []" "JSON_parse env raw = Inr (JsonData d)"
    and "stored_room (toLowerCase env) (d_room d) (url_param env) = Inr rm"
  shows "readLocal env = Inr (loaded_state env d rm)"
  using assms by (simp add: readLocal_def readLocal_try_def)

lemma readLocal_try_cases:
  "(\<exists>x. readLocal_try env = Inl x)
   \<or> (\<exists>raw d rm. getItem env = Inr (Some raw) \<and> raw \<noteq> [] \<and> JSON_parse env raw = Inr (JsonData d)
        \<and> stored_room (toLowerCase env) (d_room d) (url_param env) = Inr rm)"
proof (cases "getItem env")
  case (Inl x)
  then show ?thesis by (simp add: readLocal_try_def)
next
  case (Inr item)
  show ?thesis
  proof (cases item)
    case None
    with Inr show ?thesis by (simp add: readLocal_try_def)
  next
    case (Some raw)
    show ?thesis
    proof (cases "raw = []")
      case True
      with Inr Some show ?thesis by (simp add: readLocal_try_def)
    next
      case False
      show ?thesis
      proof (cases "JSON_parse env raw")
        case (Inl x)
        with Inr Some False show ?thesis by (simp add: readLocal_try_def)
      next
        case pr: (Inr v)
        show ?thesis
        proof (cases v)
          case JsonNull
          with Inr Some False pr show ?thesis by (simp add: readLocal_try_def)
        next
          case (JsonData d)
          show ?thesis
          proof (cases "stored_room (toLowerCase env) (d_room d) (url_param env)")
            case (Inl x)
            with Inr Some False pr JsonData show ?thesis by (simp add: readLocal_try_def)
          next
            case rm: (Inr rm)
            with Inr Some False pr JsonData show ?thesis by blast
          qed
        qed
      qed
    qed
  qed
qed

lemma readLocal_cases:
  "readLocal env = Inr (default_state env)
   \<or> (\<exists>raw d rm. getItem env = Inr (Some raw) \<and> raw \<noteq> [] \<and> JSON_parse env raw = Inr (JsonData d)
        \<and> stored_room (toLowerCase env) (d_room d) (url_param env) = Inr rm
        \<and> readLocal env = Inr (loaded_state env d rm))"
  using readLocal_try_cases [of env] readLocal_caught [of env] readLocal_data [of env]
  by blast

lemma history_loaded: "length (history (loaded_state env d rm)) \<le> MAX_HISTORY"
  by (simp add: loaded_state_def split: option.splits)

lemma history_readLocal: "readLocal env = Inr s \<Longrightarrow> length (history s) \<le> MAX_HISTORY"
  using readLocal_cases [of env] history_loaded by (auto simp: default_state_def)

lemma history_writeLocal:
  "writeLocal accepts st = Inr saved \<Longrightarrow> history saved = take MAX_HISTORY (history st)"
  by (auto simp: writeLocal_def Let_def split: if_splits)

lemma history_reduce: "length (history (reduce now m st)) \<le> MAX_HISTORY"
  by (cases m) (simp_all add: history_applyDelta resetAll_def)

lemma state_advance: "state (advance d e) = state e"
  by (simp add: advance_def timer_callback_def Let_def split: option.splits)

lemma history_on_change:
  "history (state (on_change p e)) = history (state e)
   \<or> (\<exists>r. p = Some r \<and> history (state (on_change p e)) = take MAX_HISTORY (row_history r))"
  by (cases p) (simp_all add: on_change_def state_set_shared history_adopt)

lemma history_initial_load:
  "history (state (initial_load_resume res e)) =
     (case res of None \<Rightarrow> history (state e) | Some r \<Rightarrow> take MAX_HISTORY (row_history r))"
  by (cases res) (simp_all add: initial_load_resume_def state_set_shared history_adopt)

lemma history_step:
  assumes "length (history (state e)) \<le> MAX_HISTORY"
  shows "length (history (state (step e ev))) \<le> MAX_HISTORY"
proof (cases ev)
  case (Mutate m)
  then show ?thesis by (simp add: state_set_shared history_reduce)
next
  case (Advance d)
  then show ?thesis using assms by (simp add: state_advance)
next
  case (Change p)
  then show ?thesis using assms history_on_change [of p e] by auto
next
  case (UpsertSettled ok)
  then show ?thesis using assms by (simp add: upsert_resume_def)
next
  case (Loaded res)
  then show ?thesis using assms by (cases res) (simp_all add: history_initial_load)
qed

lemma history_run:
  "length (history (state e)) \<le> MAX_HISTORY \<Longrightarrow> length (history (state (run e evs))) \<le> MAX_HISTORY"
  unfolding run_def by (induction evs arbitrary: e) (simp_all add: history_step)


text \<open>
  Claim C4. Every operation that writes the history cuts it to its first 200 entries:
  \<open>applyDelta\<close> keeps the first 200 of the new entry followed by the old history,
  \<open>resetAll\<close> empties it, the subscription handler and the initial load keep the first 200
  of the remote history, \<open>writeLocal\<close> saves the first 200, \<open>readLocal\<close> returns the first
  200 of the stored array (or none). The history is newest first, so the entries dropped
  are the oldest and the order of the others is kept. Hence a history of at most 200
  entries stays so under every sequence of events.
\<close>

theorem history_bounded:
  "history (applyDelta uid now t d why st) =
     take 200 (\<lparr> entry_id = uid, house = t, delta = d, reason = entry_reason why,
                  timestamp = now \<rparr> # history st)
   \<and> length (history (applyDelta uid now t d why st)) \<le> 200
   \<and> history (resetAll True st) = []
   \<and> (history (state (on_change p e)) = history (state e)
        \<or> (\<exists>r. p = Some r \<and> history (state (on_change p e)) = take 200 (row_history r)))
   \<and> history (state (initial_load_resume (Some r) e)) = take 200 (row_history r)
   \<and> (writeLocal accepts st = Inl StorageException
        \<or> (\<exists>saved. writeLocal accepts st = Inr saved \<and> history saved = take 200 (history st)))
   \<and> (\<exists>s. readLocal env = Inr s
          \<and> (history s = []
              \<or> (\<exists>raw dat h. getItem env = Inr (Some raw) \<and> JSON_parse env raw = Inr (JsonData dat)
                    \<and> d_history dat = Some h \<and> history s = take 200 h)))
   \<and> (length (history (state e)) \<le> 200 \<longrightarrow> length (history (state (run e evs))) \<le> 200)"
proof -
  have a: "history (applyDelta uid now t d why st) =
     take 200 (\<lparr> entry_id = uid, house = t, delta = d, reason = entry_reason why,
                  timestamp = now \<rparr> # history st)"
    using history_applyDelta [of uid now t d why st] by (simp only: MAX_HISTORY_def)
  have b: "length (history (applyDelta uid now t d why st)) \<le> 200"
    by (simp only: a) simp
  have c: "history (resetAll True st) = []"
    by (simp add: resetAll_def)
  have d: "history (state (on_change p e)) = history (state e)
        \<or> (\<exists>r. p = Some r \<and> history (state (on_change p e)) = take 200 (row_history r))"
    using history_on_change [of p e] by (simp only: MAX_HISTORY_def)
  have f: "history (state (initial_load_resume (Some r) e)) = take 200 (row_history r)"
    by (simp add: history_initial_load MAX_HISTORY_def)
  have g: "writeLocal accepts st = Inl StorageException
        \<or> (\<exists>saved. writeLocal accepts st = Inr saved \<and> history saved = take 200 (history st))"
    by (simp add: writeLocal_def Let_def MAX_HISTORY_def)
  have h: "\<exists>s. readLocal env = Inr s
          \<and> (history s = []
              \<or> (\<exists>raw dat h. getItem env = Inr (Some raw) \<and> JSON_parse env raw = Inr (JsonData dat)
                    \<and> d_history dat = Some h \<and> history s = take 200 h))"
  proof -
    from readLocal_cases [of env] show ?thesis
    proof
      assume "readLocal env = Inr (default_state env)"
      then show ?thesis by (simp add: default_state_def)
    next
      assume "\<exists>raw d rm. getItem env = Inr (Some raw) \<and> raw \<noteq> []
        \<and> JSON_parse env raw = Inr (JsonData d)
        \<and> stored_room (toLowerCase env) (d_room d) (url_param env) = Inr rm
        \<and> readLocal env = Inr (loaded_state env d rm)"
      then obtain raw dat rm where o: "getItem env = Inr (Some raw)"
        "JSON_parse env raw = Inr (JsonData dat)" "readLocal env = Inr (loaded_state env dat rm)"
        by blast
      show ?thesis
      proof (cases "d_history dat")
        case None
        then have "history (loaded_state env dat rm) = []" by (simp add: loaded_state_def)
        with o(3) show ?thesis by simp
      next
        case (Some h)
        then have "history (loaded_state env dat rm) = take 200 h"
          by (simp add: loaded_state_def MAX_HISTORY_def)
        with o Some show ?thesis by blast
      qed
    qed
  qed
  have i: "length (history (state e)) \<le> 200 \<longrightarrow> length (history (state (run e evs))) \<le> 200"
    using history_run [of e evs] by (simp only: MAX_HISTORY_def) blast
  from a b c d f g h i show ?thesis by blast
qed

theorem history_bounded_witness:
  "length (history (state example_engine)) \<le> 200
   \<and> length (history (state (run example_engine
        [Mutate (ApplyDelta (lit ''u1'') Gryffindor 5 None), Advance 100,
         Change (Some (example_row 2000)), Mutate ResetConfirmed]))) \<le> 200"
proof -
  have h: "length (history (state example_engine)) \<le> 200"
    by (simp add: example_engine_def example_state_def)
  from history_bounded [where e = example_engine and evs = "[Mutate (ApplyDelta (lit ''u1'') Gryffindor 5 None), Advance 100,
         Change (Some (example_row 2000)), Mutate ResetConfirmed]"] h show ?thesis
    by blast
qed

section \<open>What loading returns\<close>

lemma zero_points_house: "zero_points (house_key h) = Some (Num 0)"
  by (cases h) (simp_all add: zero_points_def)

lemma readLocal_missing:
  assumes "(\<exists>x. getItem env = Inl x) \<or> getItem env = Inr None \<or> getItem env = Inr (Some [])"
  shows "readLocal env = Inr (default_state env)"
proof -
  from assms have "\<exists>x. readLocal_try env = Inl x"
    by (auto simp: readLocal_try_def)
  then show ?thesis using readLocal_caught by blast
qed

lemma readLocal_corrupt:
  assumes "getItem env = Inr (Some raw)" "JSON_parse env raw = Inl x"
  shows "readLocal env = Inr (default_state env)"
proof -
  from assms have "\<exists>x. readLocal_try env = Inl x"
    by (simp add: readLocal_try_def)
  then show ?thesis using readLocal_caught by blast
qed

lemma readLocal_null:
  assumes "getItem env = Inr (Some raw)" "JSON_parse env raw = Inr JsonNull"
  shows "readLocal env = Inr (default_state env)"
proof -
  from assms have "\<exists>x. readLocal_try env = Inl x"
    by (simp add: readLocal_try_def)
  then show ?thesis using readLocal_caught by blast
qed

lemma readLocal_bad_room:
  assumes "getItem env = Inr (Some raw)" "JSON_parse env raw = Inr (JsonData d)"
    "d_room d = RoomTruthyOther"
  shows "readLocal env = Inr (default_state env)"
proof -
  from assms have "\<exists>x. readLocal_try env = Inl x"
    by (simp add: readLocal_try_def stored_room_def)
  then show ?thesis using readLocal_caught by blast
qed

lemma stored_room_ok:
  assumes "r \<noteq> RoomTruthyOther"
  shows "stored_room toLower r param =
     Inr (sanitizeRoom toLower
           (str_or (str_or (case r of RoomString s \<Rightarrow> s | _ \<Rightarrow> []) (getRoomFromURL toLower param))
              (lit ''demo'')))"
  using assms by (cases r) (simp_all add: stored_room_def str_or_def)

lemma readLocal_record:
  assumes "getItem env = Inr (Some raw)" "raw \<noteq> []" "JSON_parse env raw = Inr (JsonData d)"
    "d_room d \<noteq> RoomTruthyOther"
  shows "readLocal env =
     Inr (loaded_state env d
           (sanitizeRoom (toLowerCase env)
             (str_or (str_or (case d_room d of RoomString s \<Rightarrow> s | _ \<Rightarrow> [])
                        (getRoomFromURL (toLowerCase env) (url_param env)))
                (lit ''demo''))))"
  by (rule readLocal_data [OF assms(1,2,3) stored_room_ok [OF assms(4)]])

lemma example_env_fields:
  "getItem (example_env item) = item" "JSON_parse (example_env item) = example_parse"
  "url_param (example_env item) = None" "supabaseReady (example_env item) = False"
  "toLowerCase (example_env item) = example_toLowerCase"
  by (simp_all add: example_env_def)

lemma example_room: "sanitizeRoom example_toLowerCase
    (str_or (str_or [] (getRoomFromURL example_toLowerCase None)) (lit ''demo'')) = lit ''demo''"
  by (simp add: str_or_def getRoomFromURL_def demo_fix [OF example_lower_casing])

lemma example_raws:
  "partial_raw \<noteq> []" "number_points_raw \<noteq> []" "bad_room_raw \<noteq> []"
  "example_parse partial_raw = Inr (JsonData partial_data)"
  "example_parse number_points_raw = Inr (JsonData (empty_data\<lparr> d_points := Some Map.empty \<rparr>))"
  "example_parse bad_room_raw = Inr (JsonData (partial_data\<lparr> d_room := RoomTruthyOther \<rparr>))"
  "example_parse (lit ''{}'') = Inr (JsonData empty_data)"
  "example_parse (lit ''null'') = Inr JsonNull"
  "example_parse (lit ''{oops'') = Inl SyntaxError"
  by (simp_all add: example_parse_def partial_raw_def number_points_raw_def bad_room_raw_def
      lit_def)

lemma example_load:
  assumes "raw \<noteq> []" "example_parse raw = Inr (JsonData d)" "d_room d = RoomFalsy"
  shows "readLocal (example_env (Inr (Some raw))) =
     Inr \<lparr> points = (case d_points d of None \<Rightarrow> zero_points | Some p \<Rightarrow> p),
           history = (case d_history d of None \<Rightarrow> [] | Some h \<Rightarrow> take 200 h),
           theme = (if d_theme d = Some (lit ''light'') then Light else Dark),
           bgUrl = (case d_bgUrl d of None \<Rightarrow> [] | Some u \<Rightarrow> u),
           room = lit ''demo'',
           backend = (case d_backend d of None \<Rightarrow> LocalBackend | Some b \<Rightarrow> b) \<rparr>"
proof -
  let ?E = "example_env (Inr (Some raw))"
  have g: "getItem ?E = Inr (Some raw)" by (simp add: example_env_fields)
  have p: "JSON_parse ?E raw = Inr (JsonData d)" by (simp add: example_env_fields assms(2))
  have r: "d_room d \<noteq> RoomTruthyOther" by (simp add: assms(3))
  from readLocal_record [OF g assms(1) p r] show ?thesis
    by (simp add: example_env_fields assms(3) example_room loaded_state_def MAX_HISTORY_def
        default_backend_def cong: option.case_cong)
qed

text \<open>
  Claim C8, as stated, fails for partially shaped data: the stored text \<open>{"points":0}\<close>
  parses, so \<open>readLocal\<close> returns the value stored under \<open>points\<close>, which has no
  properties, and not the default snapshot with the four houses at zero.
\<close>

theorem readLocal_partial_counterexample:
  "readLocal (example_env (Inr (Some number_points_raw)))
     = Inr \<lparr> points = Map.empty, history = [], theme = Dark, bgUrl = [], room = lit ''demo'',
             backend = LocalBackend \<rparr>
   \<and> readLocal (example_env (Inr (Some number_points_raw)))
       \<noteq> Inr (default_state (example_env (Inr (Some number_points_raw))))"
proof -
  let ?E = "example_env (Inr (Some number_points_raw))"
  have a: "readLocal ?E
     = Inr \<lparr> points = Map.empty, history = [], theme = Dark, bgUrl = [], room = lit ''demo'',
             backend = LocalBackend \<rparr>"
    using example_load [OF example_raws(2) example_raws(5)] by (simp add: empty_data_def)
  have "points (default_state ?E) (lit ''Gryffindor'') = Some (Num 0)"
    by (simp add: default_state_def zero_points_def lit_def)
  then have ne: "points (default_state ?E) \<noteq> Map.empty" by auto
  have b: "readLocal ?E \<noteq> Inr (default_state ?E)"
  proof
    assume "readLocal ?E = Inr (default_state ?E)"
    with a have "default_state ?E = \<lparr> points = Map.empty, history = [], theme = Dark, bgUrl = [],
        room = lit ''demo'', backend = LocalBackend \<rparr>" by simp
    then have "points (default_state ?E) = Map.empty" by simp
    with ne show False by simp
  qed
  from a b show ?thesis by (rule conjI)
qed

text \<open>
  Claim C8, amended. \<open>readLocal\<close> returns a snapshot for every content of the store and
  never raises. It returns the default snapshot (every house at zero, empty history) when
  \<open>getItem\<close> throws, when nothing or the empty text is stored, when the text does not
  parse, when it parses to \<open>null\<close>, and when the stored room is a truthy value that is
  not a string. In every other case each field is taken from the parsed value on its
  own: \<open>points\<close> is the stored value, unvalidated, unless that is \<open>null\<close> or \<open>undefined\<close>,
  when it is the four zeros; \<open>history\<close> is the first 200 entries of the stored array, and
  empty when there is no array; \<open>theme\<close>, \<open>bgUrl\<close>, \<open>room\<close> and \<open>backend\<close> fall back
  likewise.
\<close>

theorem readLocal_never_raises:
  "(\<exists>s. readLocal env = Inr s)
   \<and> ((\<exists>x. getItem env = Inl x) \<or> getItem env = Inr None \<or> getItem env = Inr (Some [])
        \<longrightarrow> readLocal env = Inr (default_state env))
   \<and> (getItem env = Inr (Some raw) \<and> (\<exists>x. JSON_parse env raw = Inl x)
        \<longrightarrow> readLocal env = Inr (default_state env))
   \<and> (getItem env = Inr (Some raw) \<and> JSON_parse env raw = Inr JsonNull
        \<longrightarrow> readLocal env = Inr (default_state env))
   \<and> (getItem env = Inr (Some raw) \<and> JSON_parse env raw = Inr (JsonData d)
        \<and> d_room d = RoomTruthyOther
        \<longrightarrow> readLocal env = Inr (default_state env))
   \<and> (getItem env = Inr (Some raw) \<and> raw \<noteq> [] \<and> JSON_parse env raw = Inr (JsonData d)
        \<and> d_room d \<noteq> RoomTruthyOther
        \<longrightarrow> readLocal env =
              Inr \<lparr> points = (case d_points d of None \<Rightarrow> zero_points | Some p \<Rightarrow> p),
                    history = (case d_history d of None \<Rightarrow> [] | Some h \<Rightarrow> take 200 h),
                    theme = (if d_theme d = Some (lit ''light'') then Light else Dark),
                    bgUrl = (case d_bgUrl d of None \<Rightarrow> [] | Some u \<Rightarrow> u),
                    room = sanitizeRoom (toLowerCase env)
                             (str_or (str_or (case d_room d of RoomString s \<Rightarrow> s | _ \<Rightarrow> [])
                                        (getRoomFromURL (toLowerCase env) (url_param env)))
                                (lit ''demo'')),
                    backend = (case d_backend d of None \<Rightarrow> default_backend (supabaseReady env)
                               | Some b \<Rightarrow> b) \<rparr>)
   \<and> default_state env =
        \<lparr> points = zero_points, history = [], theme = Dark, bgUrl = [],
          room = sanitizeRoom (toLowerCase env)
                   (str_or (getRoomFromURL (toLowerCase env) (url_param env)) (lit ''demo'')),
          backend = default_backend (supabaseReady env) \<rparr>
   \<and> zero_points (house_key h) = Some (Num 0)
   \<and> dom zero_points = house_keys"
proof -
  have p: "default_state env =
        \<lparr> points = zero_points, history = [], theme = Dark, bgUrl = [],
          room = sanitizeRoom (toLowerCase env)
                   (str_or (getRoomFromURL (toLowerCase env) (url_param env)) (lit ''demo'')),
          backend = default_backend (supabaseReady env) \<rparr>"
    by (simp add: default_state_def)
  have r: "getItem env = Inr (Some raw) \<and> raw \<noteq> [] \<and> JSON_parse env raw = Inr (JsonData d)
        \<and> d_room d \<noteq> RoomTruthyOther
        \<longrightarrow> readLocal env =
              Inr \<lparr> points = (case d_points d of None \<Rightarrow> zero_points | Some p \<Rightarrow> p),
                    history = (case d_history d of None \<Rightarrow> [] | Some h \<Rightarrow> take 200 h),
                    theme = (if d_theme d = Some (lit ''light'') then Light else Dark),
                    bgUrl = (case d_bgUrl d of None \<Rightarrow> [] | Some u \<Rightarrow> u),
                    room = sanitizeRoom (toLowerCase env)
                             (str_or (str_or (case d_room d of RoomString s \<Rightarrow> s | _ \<Rightarrow> [])
                                        (getRoomFromURL (toLowerCase env) (url_param env)))
                                (lit ''demo'')),
                    backend = (case d_backend d of None \<Rightarrow> default_backend (supabaseReady env)
                               | Some b \<Rightarrow> b) \<rparr>"
  proof
    assume h: "getItem env = Inr (Some raw) \<and> raw \<noteq> [] \<and> JSON_parse env raw = Inr (JsonData d)
        \<and> d_room d \<noteq> RoomTruthyOther"
    then have "readLocal env =
     Inr (loaded_state env d
           (sanitizeRoom (toLowerCase env)
             (str_or (str_or (case d_room d of RoomString s \<Rightarrow> s | _ \<Rightarrow> [])
                        (getRoomFromURL (toLowerCase env) (url_param env)))
                (lit ''demo''))))"
      using readLocal_record [of env raw d] by blast
    then show "readLocal env =
              Inr \<lparr> points = (case d_points d of None \<Rightarrow> zero_points | Some p \<Rightarrow> p),
                    history = (case d_history d of None \<Rightarrow> [] | Some h \<Rightarrow> take 200 h),
                    theme = (if d_theme d = Some (lit ''light'') then Light else Dark),
                    bgUrl = (case d_bgUrl d of None \<Rightarrow> [] | Some u \<Rightarrow> u),
                    room = sanitizeRoom (toLowerCase env)
                             (str_or (str_or (case d_room d of RoomString s \<Rightarrow> s | _ \<Rightarrow> [])
                                        (getRoomFromURL (toLowerCase env) (url_param env)))
                                (lit ''demo'')),
                    backend = (case d_backend d of None \<Rightarrow> default_backend (supabaseReady env)
                               | Some b \<Rightarrow> b) \<rparr>"
      by (simp add: loaded_state_def MAX_HISTORY_def cong: option.case_cong)
  qed
  have t: "\<exists>s. readLocal env = Inr s" by (rule readLocal_total)
  have m: "(\<exists>x. getItem env = Inl x) \<or> getItem env = Inr None \<or> getItem env = Inr (Some [])
        \<longrightarrow> readLocal env = Inr (default_state env)"
    using readLocal_missing [of env] by blast
  have c: "getItem env = Inr (Some raw) \<and> (\<exists>x. JSON_parse env raw = Inl x)
        \<longrightarrow> readLocal env = Inr (default_state env)"
    using readLocal_corrupt [of env raw] by blast
  have n: "getItem env = Inr (Some raw) \<and> JSON_parse env raw = Inr JsonNull
        \<longrightarrow> readLocal env = Inr (default_state env)"
    using readLocal_null [of env raw] by blast
  have b: "getItem env = Inr (Some raw) \<and> JSON_parse env raw = Inr (JsonData d)
        \<and> d_room d = RoomTruthyOther
        \<longrightarrow> readLocal env = Inr (default_state env)"
    using readLocal_bad_room [of env raw d] by blast
  note z = zero_points_house [of h]
  show ?thesis
    by (intro conjI) (rule t m c n b r p z dom_zero_points)+
qed

theorem readLocal_never_raises_witness:
  "readLocal (example_env (Inr None)) = Inr (default_state (example_env (Inr None)))
   \<and> readLocal (example_env (Inl StorageException))
       = Inr (default_state (example_env (Inl StorageException)))
   \<and> readLocal (example_env (Inr (Some (lit ''{oops''))))
       = Inr (default_state (example_env (Inr (Some (lit ''{oops'')))))
   \<and> readLocal (example_env (Inr (Some (lit ''null''))))
       = Inr (default_state (example_env (Inr (Some (lit ''null'')))))
   \<and> readLocal (example_env (Inr (Some bad_room_raw)))
       = Inr (default_state (example_env (Inr (Some bad_room_raw))))
   \<and> readLocal (example_env (Inr (Some partial_raw)))
       = Inr \<lparr> points = [lit ''Gryffindor'' \<mapsto> Num 1], history = [], theme = Dark, bgUrl = [],
               room = lit ''demo'', backend = LocalBackend \<rparr>"
proof -
  let ?E1 = "example_env (Inr None)"
  let ?E2 = "example_env (Inl StorageException)"
  let ?E3 = "example_env (Inr (Some (lit ''{oops'')))"
  let ?E4 = "example_env (Inr (Some (lit ''null'')))"
  let ?E5 = "example_env (Inr (Some bad_room_raw))"
  let ?E6 = "example_env (Inr (Some partial_raw))"
  note defs = example_env_fields example_raws
  have h1: "(\<exists>x. getItem ?E1 = Inl x) \<or> getItem ?E1 = Inr None \<or> getItem ?E1 = Inr (Some [])"
    by (simp add: example_env_fields)
  have h2: "(\<exists>x. getItem ?E2 = Inl x) \<or> getItem ?E2 = Inr None \<or> getItem ?E2 = Inr (Some [])"
    by (simp add: example_env_fields)
  have h3: "getItem ?E3 = Inr (Some (lit ''{oops'')) \<and> (\<exists>x. JSON_parse ?E3 (lit ''{oops'') = Inl x)"
    by (simp add: defs)
  have h4: "getItem ?E4 = Inr (Some (lit ''null'')) \<and> JSON_parse ?E4 (lit ''null'') = Inr JsonNull"
    by (simp add: defs)
  have h5: "getItem ?E5 = Inr (Some bad_room_raw)
      \<and> JSON_parse ?E5 bad_room_raw = Inr (JsonData (partial_data\<lparr> d_room := RoomTruthyOther \<rparr>))
      \<and> d_room (partial_data\<lparr> d_room := RoomTruthyOther \<rparr>) = RoomTruthyOther"
    by (simp add: defs)
  have h6: "getItem ?E6 = Inr (Some partial_raw) \<and> partial_raw \<noteq> []
      \<and> JSON_parse ?E6 partial_raw = Inr (JsonData partial_data)
      \<and> d_room partial_data \<noteq> RoomTruthyOther"
    by (simp add: defs partial_data_def)
  note T = readLocal_never_raises
  from T [where env = ?E1, THEN conjunct2, THEN conjunct1] h1
  have c1: "readLocal ?E1 = Inr (default_state ?E1)" by (rule mp)
  from T [where env = ?E2, THEN conjunct2, THEN conjunct1] h2
  have c2: "readLocal ?E2 = Inr (default_state ?E2)" by (rule mp)
  from T [where env = ?E3 and raw = "lit ''{oops''", THEN conjunct2, THEN conjunct2, THEN conjunct1] h3
  have c3: "readLocal ?E3 = Inr (default_state ?E3)" by (rule mp)
  from T [where env = ?E4 and raw = "lit ''null''", THEN conjunct2, THEN conjunct2, THEN conjunct2,
      THEN conjunct1] h4
  have c4: "readLocal ?E4 = Inr (default_state ?E4)" by (rule mp)
  from T [where env = ?E5 and raw = bad_room_raw
      and d = "partial_data\<lparr> d_room := RoomTruthyOther \<rparr>", THEN conjunct2, THEN conjunct2,
      THEN conjunct2, THEN conjunct2, THEN conjunct1] h5
  have c5: "readLocal ?E5 = Inr (default_state ?E5)" by (rule mp)
  from T [where env = ?E6 and raw = partial_raw and d = partial_data, THEN conjunct2,
      THEN conjunct2, THEN conjunct2, THEN conjunct2, THEN conjunct2, THEN conjunct1] h6
  have "readLocal ?E6 =
              Inr \<lparr> points = (case d_points partial_data of None \<Rightarrow> zero_points | Some p \<Rightarrow> p),
                    history = (case d_history partial_data of None \<Rightarrow> [] | Some h \<Rightarrow> take 200 h),
                    theme = (if d_theme partial_data = Some (lit ''light'') then Light else Dark),
                    bgUrl = (case d_bgUrl partial_data of None \<Rightarrow> [] | Some u \<Rightarrow> u),
                    room = sanitizeRoom (toLowerCase ?E6)
                             (str_or (str_or (case d_room partial_data of RoomString s \<Rightarrow> s | _ \<Rightarrow> [])
                                        (getRoomFromURL (toLowerCase ?E6) (url_param ?E6)))
                                (lit ''demo'')),
                    backend = (case d_backend partial_data of
                                 None \<Rightarrow> default_backend (supabaseReady ?E6) | Some b \<Rightarrow> b) \<rparr>"
    by (rule mp)
  then have c6: "readLocal ?E6
       = Inr \<lparr> points = [lit ''Gryffindor'' \<mapsto> Num 1], history = [], theme = Dark, bgUrl = [],
               room = lit ''demo'', backend = LocalBackend \<rparr>"
    using example_room by (simp add: partial_data_def example_env_fields default_backend_def)
  from c1 c2 c3 c4 c5 c6 show ?thesis by (intro conjI)
qed

section \<open>The keys of the points object\<close>

lemma points_initial_load:
  "points (state (initial_load_resume (Some r) e)) = row_points r"
  by (simp add: initial_load_resume_def state_set_shared points_adopt)

lemma state_initial_load_none: "state (initial_load_resume None e) = state e"
  by (simp add: initial_load_resume_def)

lemma on_change_discarded:
  assumes "\<not> (case lastRemoteRef e of None \<Rightarrow> True | Some t0 \<Rightarrow> t0 < updated_at r)"
  shows "on_change (Some r) e = e"
  using assms by (simp add: on_change_def)

lemma on_change_none: "on_change None e = e"
  by (simp add: on_change_def)

lemma readLocal_not_record:
  assumes "\<forall>raw d. getItem env = Inr (Some raw) \<and> raw \<noteq> [] \<and> JSON_parse env raw = Inr (JsonData d)
             \<longrightarrow> d_room d = RoomTruthyOther"
  shows "readLocal env = Inr (default_state env)"
proof -
  from readLocal_try_cases [of env] show ?thesis
  proof
    assume "\<exists>x. readLocal_try env = Inl x"
    then show ?thesis using readLocal_caught by blast
  next
    assume "\<exists>raw d rm. getItem env = Inr (Some raw) \<and> raw \<noteq> []
        \<and> JSON_parse env raw = Inr (JsonData d)
        \<and> stored_room (toLowerCase env) (d_room d) (url_param env) = Inr rm"
    then obtain raw d rm where o: "getItem env = Inr (Some raw)" "raw \<noteq> []"
        "JSON_parse env raw = Inr (JsonData d)"
        "stored_room (toLowerCase env) (d_room d) (url_param env) = Inr rm"
      by blast
    from assms o(1,2,3) have "d_room d = RoomTruthyOther" by blast
    with o(4) show ?thesis by (simp add: stored_room_def)
  qed
qed

lemma points_readLocal_record:
  assumes "getItem env = Inr (Some raw)" "raw \<noteq> []" "JSON_parse env raw = Inr (JsonData d)"
    "d_room d \<noteq> RoomTruthyOther"
  shows "\<exists>s. readLocal env = Inr s
           \<and> points s = (case d_points d of None \<Rightarrow> zero_points | Some p \<Rightarrow> p)"
  using readLocal_record [OF assms] by (simp add: loaded_state_def)

lemma slytherin_key: "lit ''Slytherin'' \<in> house_keys"
  by (simp add: house_keys_def HOUSES_def)

lemma one_key_not_four: "dom [lit ''Gryffindor'' \<mapsto> Num 1] \<noteq> house_keys"
proof
  assume "dom [lit ''Gryffindor'' \<mapsto> Num 1] = house_keys"
  with slytherin_key have "lit ''Slytherin'' \<in> dom [lit ''Gryffindor'' \<mapsto> Num 1]" by simp
  then show False by (simp add: lit_def)
qed

text \<open>
  Claim C5, as stated, fails on load: a stored record whose \<open>points\<close> object has the single
  key \<open>Gryffindor\<close> is returned by \<open>readLocal\<close> with that object, which does not have the
  four keys.
\<close>

theorem points_keys_counterexample:
  "readLocal (example_env (Inr (Some partial_raw)))
     = Inr \<lparr> points = [lit ''Gryffindor'' \<mapsto> Num 1], history = [], theme = Dark, bgUrl = [],
             room = lit ''demo'', backend = LocalBackend \<rparr>
   \<and> dom [lit ''Gryffindor'' \<mapsto> Num 1] \<noteq> house_keys"
proof -
  have a: "readLocal (example_env (Inr (Some partial_raw)))
     = Inr \<lparr> points = [lit ''Gryffindor'' \<mapsto> Num 1], history = [], theme = Dark, bgUrl = [],
             room = lit ''demo'', backend = LocalBackend \<rparr>"
    using example_load [OF example_raws(1) example_raws(4)] by (simp add: partial_data_def)
  from a one_key_not_four show ?thesis by (rule conjI)
qed

text \<open>
  Claim C5, amended. \<open>applyDelta\<close> adds the target's key to the keys present, so it keeps a
  points value with exactly the four house keys; \<open>resetAll\<close> and the default snapshot have
  exactly the four keys. \<open>readLocal\<close> returns the default snapshot unless the stored text
  is not empty and parses to a value other than \<open>null\<close> whose room is not a truthy
  non-string; for such a value it returns what is stored under \<open>points\<close>, unvalidated,
  or the four zeros when that is \<open>null\<close> or \<open>undefined\<close>. The initial load that finds a
  row and a subscription event that is applied set \<open>points\<close> to the remote value,
  unvalidated; an initial load without a row, a discarded event and an event without a
  row leave the state as it is. So after a load that reads a record, an initial load
  with a row and an applied event the keys are exactly the four if and only if the
  value taken over is absent (on load) or has exactly the four keys.
\<close>

theorem points_keys_preserved:
  "dom (points (applyDelta uid now t d why st)) = insert (house_key t) (dom (points st))
   \<and> (dom (points st) = house_keys \<longrightarrow> dom (points (applyDelta uid now t d why st)) = house_keys)
   \<and> dom (points (resetAll True st)) = house_keys
   \<and> points (default_state env) = zero_points
   \<and> dom zero_points = house_keys
   \<and> (getItem env = Inr (Some raw) \<and> raw \<noteq> [] \<and> JSON_parse env raw = Inr (JsonData dat)
        \<and> d_room dat \<noteq> RoomTruthyOther
        \<longrightarrow> (\<exists>s. readLocal env = Inr s
               \<and> points s = (case d_points dat of None \<Rightarrow> zero_points | Some p \<Rightarrow> p)))
   \<and> ((\<forall>raw dat. getItem env = Inr (Some raw) \<and> raw \<noteq> [] \<and> JSON_parse env raw = Inr (JsonData dat)
          \<longrightarrow> d_room dat = RoomTruthyOther)
        \<longrightarrow> readLocal env = Inr (default_state env))
   \<and> points (state (initial_load_resume (Some r) e)) = row_points r
   \<and> state (initial_load_resume None e) = state e
   \<and> ((case lastRemoteRef e of None \<Rightarrow> True | Some t0 \<Rightarrow> t0 < updated_at r)
        \<longrightarrow> points (state (on_change (Some r) e)) = row_points r)
   \<and> (\<not> (case lastRemoteRef e of None \<Rightarrow> True | Some t0 \<Rightarrow> t0 < updated_at r)
        \<longrightarrow> on_change (Some r) e = e)
   \<and> on_change None e = e"
proof -
  have a: "dom (points st) = house_keys \<longrightarrow> dom (points (applyDelta uid now t d why st)) = house_keys"
    using house_key_in [of t] by (auto simp: dom_applyDelta)
  have c: "dom (points (resetAll True st)) = house_keys"
    by (simp add: resetAll_def dom_zero_points)
  have f: "points (default_state env) = zero_points"
    by (simp add: default_state_def)
  have g: "getItem env = Inr (Some raw) \<and> raw \<noteq> [] \<and> JSON_parse env raw = Inr (JsonData dat)
        \<and> d_room dat \<noteq> RoomTruthyOther
        \<longrightarrow> (\<exists>s. readLocal env = Inr s
               \<and> points s = (case d_points dat of None \<Rightarrow> zero_points | Some p \<Rightarrow> p))"
    using points_readLocal_record [of env raw dat] by blast
  have h: "(\<forall>raw dat. getItem env = Inr (Some raw) \<and> raw \<noteq> [] \<and> JSON_parse env raw = Inr (JsonData dat)
          \<longrightarrow> d_room dat = RoomTruthyOther)
        \<longrightarrow> readLocal env = Inr (default_state env)"
    using readLocal_not_record [of env] by blast
  have i: "(case lastRemoteRef e of None \<Rightarrow> True | Some t0 \<Rightarrow> t0 < updated_at r)
        \<longrightarrow> points (state (on_change (Some r) e)) = row_points r"
    using on_change_applied_fields(1) [where e = e and r = r] by blast
  have j: "\<not> (case lastRemoteRef e of None \<Rightarrow> True | Some t0 \<Rightarrow> t0 < updated_at r)
        \<longrightarrow> on_change (Some r) e = e"
    using on_change_discarded [where e = e and r = r] by blast
  note k = dom_applyDelta [of uid now t d why st] points_initial_load [of r e]
    state_initial_load_none [of e] on_change_none [of e]
  show ?thesis
    by (intro conjI) (rule k a c f dom_zero_points g h i j)+
qed

theorem points_keys_preserved_witness:
  "dom (points example_state) = house_keys
   \<and> dom (points (applyDelta (lit ''u1'') 1000 Ravenclaw (- 5) None example_state)) = house_keys
   \<and> (\<exists>s. readLocal (example_env (Inr (Some partial_raw))) = Inr s
          \<and> points s = [lit ''Gryffindor'' \<mapsto> Num 1])
   \<and> readLocal (example_env (Inr (Some bad_room_raw)))
       = Inr (default_state (example_env (Inr (Some bad_room_raw))))
   \<and> points (state (on_change (Some (example_row 1001)) example_engine))
       = zero_points(lit ''Slytherin'' \<mapsto> Num 5)
   \<and> on_change (Some (example_row 1000)) example_engine = example_engine"
proof -
  note T = points_keys_preserved
  let ?E6 = "example_env (Inr (Some partial_raw))"
  let ?E5 = "example_env (Inr (Some bad_room_raw))"
  have h1: "dom (points example_state) = house_keys"
    by (simp add: example_state_def dom_zero_points)
  from T [where st = example_state and uid = "lit ''u1''" and now = 1000
      and t = Ravenclaw and d = "- 5" and why = None, THEN conjunct2, THEN conjunct1] h1
  have c1: "dom (points (applyDelta (lit ''u1'') 1000 Ravenclaw (- 5) None example_state)) = house_keys"
    by (rule mp)
  have h2: "getItem ?E6 = Inr (Some partial_raw) \<and> partial_raw \<noteq> []
      \<and> JSON_parse ?E6 partial_raw = Inr (JsonData partial_data)
      \<and> d_room partial_data \<noteq> RoomTruthyOther"
    by (simp add: example_env_fields example_raws partial_data_def)
  from T [where env = ?E6 and raw = partial_raw and dat = partial_data, THEN conjunct2,
      THEN conjunct2, THEN conjunct2, THEN conjunct2, THEN conjunct2, THEN conjunct1] h2
  have "\<exists>s. readLocal ?E6 = Inr s
          \<and> points s = (case d_points partial_data of None \<Rightarrow> zero_points | Some p \<Rightarrow> p)"
    by (rule mp)
  then have c2: "\<exists>s. readLocal ?E6 = Inr s \<and> points s = [lit ''Gryffindor'' \<mapsto> Num 1]"
    by (simp add: partial_data_def)
  have h3: "\<forall>raw dat. getItem ?E5 = Inr (Some raw) \<and> raw \<noteq> [] \<and> JSON_parse ?E5 raw = Inr (JsonData dat)
          \<longrightarrow> d_room dat = RoomTruthyOther"
    by (auto simp: example_env_fields example_raws)
  from T [where env = ?E5, THEN conjunct2, THEN conjunct2, THEN conjunct2, THEN conjunct2,
      THEN conjunct2, THEN conjunct2, THEN conjunct1] h3
  have c3: "readLocal ?E5 = Inr (default_state ?E5)"
    by (rule mp)
  have h4: "case lastRemoteRef example_engine of None \<Rightarrow> True
      | Some t0 \<Rightarrow> t0 < updated_at (example_row 1001)"
    by (simp add: example_engine_def example_row_def)
  from T [where e = example_engine and r = "example_row 1001", THEN conjunct2, THEN conjunct2,
      THEN conjunct2, THEN conjunct2, THEN conjunct2, THEN conjunct2, THEN conjunct2,
      THEN conjunct2, THEN conjunct2, THEN conjunct1] h4
  have "points (state (on_change (Some (example_row 1001)) example_engine))
      = row_points (example_row 1001)"
    by (rule mp)
  then have c4: "points (state (on_change (Some (example_row 1001)) example_engine))
       = zero_points(lit ''Slytherin'' \<mapsto> Num 5)"
    by (simp add: example_row_def)
  have h5: "\<not> (case lastRemoteRef example_engine of None \<Rightarrow> True
      | Some t0 \<Rightarrow> t0 < updated_at (example_row 1000))"
    by (simp add: example_engine_def example_row_def)
  from T [where e = example_engine and r = "example_row 1000", THEN conjunct2, THEN conjunct2,
      THEN conjunct2, THEN conjunct2, THEN conjunct2, THEN conjunct2, THEN conjunct2,
      THEN conjunct2, THEN conjunct2, THEN conjunct2, THEN conjunct1] h5
  have c5: "on_change (Some (example_row 1000)) example_engine = example_engine"
    by (rule mp)
  from h1 c1 c2 c3 c4 c5 show ?thesis by (intro conjI)
qed

section \<open>The zero guard\<close>

lemma coerce_amount_nonneg: "0 \<le> coerce_amount a"
  by (cases a) (simp_all add: coerce_amount_def)

lemma sign_times_nonzero: "amt \<noteq> 0 \<Longrightarrow> sign_val sg * amt \<noteq> 0"
  by (cases sg) simp_all

text \<open>
  Claim C6. The amount a user enters is coerced by \<open>onAdd\<close> to its integer magnitude, 0
  when it is not a finite number, and the sign is the direction of the button. When the
  coerced amount is zero nothing happens: the state, its \<open>points\<close> and its \<open>history\<close> are
  the ones given, and no entry is added. Otherwise \<open>applyDelta\<close> runs with the signed
  magnitude, which is not zero. The only other calls of \<open>applyDelta\<close>, the quick buttons,
  pass 5 or -5, so no call of \<open>applyDelta\<close> has the amount zero.
\<close>

theorem onAdd_guards_zero:
  "coerce_amount (Finite n) = \<bar>n\<bar>
   \<and> coerce_amount NotFinite = 0
   \<and> (coerce_amount (amount form) = 0 \<longrightarrow>
        onAdd uid now sg (form, st) = (form, st)
        \<and> points (snd (onAdd uid now sg (form, st))) = points st
        \<and> history (snd (onAdd uid now sg (form, st))) = history st)
   \<and> (coerce_amount (amount form) \<noteq> 0 \<longrightarrow>
        snd (onAdd uid now sg (form, st))
          = applyDelta uid now (sel_house form) (sign_val sg * coerce_amount (amount form))
              (Some (reason_text form)) st
        \<and> sign_val sg * coerce_amount (amount form) \<noteq> 0
        \<and> \<bar>sign_val sg * coerce_amount (amount form)\<bar> = coerce_amount (amount form))
   \<and> quickAction uid now h sg st = applyDelta uid now h (sign_val sg * 5) (Some (lit ''Schnellaktion'')) st
   \<and> sign_val sg * 5 \<noteq> 0"
proof -
  have a: "coerce_amount (Finite n) = \<bar>n\<bar>" "coerce_amount NotFinite = 0"
    by (simp_all add: coerce_amount_def)
  have b: "coerce_amount (amount form) = 0 \<longrightarrow>
        onAdd uid now sg (form, st) = (form, st)
        \<and> points (snd (onAdd uid now sg (form, st))) = points st
        \<and> history (snd (onAdd uid now sg (form, st))) = history st"
    by (simp add: onAdd_def Let_def)
  have f: "\<bar>sign_val sg * coerce_amount (amount form)\<bar> = coerce_amount (amount form)"
    using coerce_amount_nonneg [of "amount form"] by (cases sg) simp_all
  have c: "coerce_amount (amount form) \<noteq> 0 \<longrightarrow>
        snd (onAdd uid now sg (form, st))
          = applyDelta uid now (sel_house form) (sign_val sg * coerce_amount (amount form))
              (Some (reason_text form)) st
        \<and> sign_val sg * coerce_amount (amount form) \<noteq> 0
        \<and> \<bar>sign_val sg * coerce_amount (amount form)\<bar> = coerce_amount (amount form)"
    using sign_times_nonzero [of "coerce_amount (amount form)" sg] f
    by (simp add: onAdd_def Let_def)
  have q: "quickAction uid now h sg st
      = applyDelta uid now h (sign_val sg * 5) (Some (lit ''Schnellaktion'')) st"
    by (simp add: quickAction_def)
  have s: "sign_val sg * 5 \<noteq> 0" by (cases sg) simp_all
  show ?thesis
    by (intro conjI) (rule a b c q s)+
qed

theorem onAdd_guards_zero_witness:
  "coerce_amount (amount \<lparr> sel_house = Gryffindor, amount = NotFinite, reason_text = lit ''x'' \<rparr>) = 0
   \<and> onAdd (lit ''u1'') 1000 Plus
        (\<lparr> sel_house = Gryffindor, amount = NotFinite, reason_text = lit ''x'' \<rparr>, example_state)
       = (\<lparr> sel_house = Gryffindor, amount = NotFinite, reason_text = lit ''x'' \<rparr>, example_state)
   \<and> coerce_amount (amount \<lparr> sel_house = Gryffindor, amount = Finite 0, reason_text = lit ''x'' \<rparr>) = 0
   \<and> history (snd (onAdd (lit ''u1'') 1000 Minus
        (\<lparr> sel_house = Gryffindor, amount = Finite 0, reason_text = lit ''x'' \<rparr>, example_state)))
       = history example_state
   \<and> coerce_amount (amount \<lparr> sel_house = Gryffindor, amount = Finite (- 3), reason_text = lit ''x'' \<rparr>)
       \<noteq> 0
   \<and> snd (onAdd (lit ''u1'') 1000 Minus
            (\<lparr> sel_house = Gryffindor, amount = Finite (- 3), reason_text = lit ''x'' \<rparr>, example_state))
       = applyDelta (lit ''u1'') 1000 Gryffindor (- 3) (Some (lit ''x'')) example_state"
proof -
  note T = onAdd_guards_zero
  let ?f0 = "\<lparr> sel_house = Gryffindor, amount = NotFinite, reason_text = lit ''x'' \<rparr>"
  let ?fz = "\<lparr> sel_house = Gryffindor, amount = Finite 0, reason_text = lit ''x'' \<rparr>"
  let ?f3 = "\<lparr> sel_house = Gryffindor, amount = Finite (- 3), reason_text = lit ''x'' \<rparr>"
  have h0: "coerce_amount (amount ?f0) = 0" by (simp add: coerce_amount_def)
  have hz: "coerce_amount (amount ?fz) = 0" by (simp add: coerce_amount_def)
  have h3: "coerce_amount (amount ?f3) \<noteq> 0" by (simp add: coerce_amount_def)
  have v3: "sign_val Minus * coerce_amount (amount ?f3) = - 3" by (simp add: coerce_amount_def)
  from T [where form = ?f0 and uid = "lit ''u1''" and now = 1000 and sg = Plus
      and st = example_state, THEN conjunct2, THEN conjunct2, THEN conjunct1] h0
  have "onAdd (lit ''u1'') 1000 Plus (?f0, example_state) = (?f0, example_state)
        \<and> points (snd (onAdd (lit ''u1'') 1000 Plus (?f0, example_state))) = points example_state
        \<and> history (snd (onAdd (lit ''u1'') 1000 Plus (?f0, example_state))) = history example_state"
    by (rule mp)
  then have c0: "onAdd (lit ''u1'') 1000 Plus (?f0, example_state) = (?f0, example_state)"
    by (rule conjunct1)
  from T [where form = ?fz and uid = "lit ''u1''" and now = 1000 and sg = Minus
      and st = example_state, THEN conjunct2, THEN conjunct2, THEN conjunct1] hz
  have "onAdd (lit ''u1'') 1000 Minus (?fz, example_state) = (?fz, example_state)
        \<and> points (snd (onAdd (lit ''u1'') 1000 Minus (?fz, example_state))) = points example_state
        \<and> history (snd (onAdd (lit ''u1'') 1000 Minus (?fz, example_state))) = history example_state"
    by (rule mp)
  then have cz: "history (snd (onAdd (lit ''u1'') 1000 Minus (?fz, example_state)))
      = history example_state"
    by (elim conjE)
  from T [where form = ?f3 and uid = "lit ''u1''" and now = 1000 and sg = Minus
      and st = example_state, THEN conjunct2, THEN conjunct2, THEN conjunct2, THEN conjunct1] h3
  have "snd (onAdd (lit ''u1'') 1000 Minus (?f3, example_state))
       = applyDelta (lit ''u1'') 1000 (sel_house ?f3) (sign_val Minus * coerce_amount (amount ?f3))
           (Some (reason_text ?f3)) example_state
        \<and> sign_val Minus * coerce_amount (amount ?f3) \<noteq> 0
        \<and> \<bar>sign_val Minus * coerce_amount (amount ?f3)\<bar> = coerce_amount (amount ?f3)"
    by (rule mp)
  then have "snd (onAdd (lit ''u1'') 1000 Minus (?f3, example_state))
       = applyDelta (lit ''u1'') 1000 (sel_house ?f3) (sign_val Minus * coerce_amount (amount ?f3))
           (Some (reason_text ?f3)) example_state"
    by (rule conjunct1)
  then have c3: "snd (onAdd (lit ''u1'') 1000 Minus (?f3, example_state))
       = applyDelta (lit ''u1'') 1000 Gryffindor (- 3) (Some (lit ''x'')) example_state"
    by (simp only: v3) simp
  from h0 c0 hz cz h3 c3 show ?thesis by (intro conjI)
qed

section \<open>The debounced push\<close>

lemma sync_active_cong:
  "room (state e') = room (state e) \<Longrightarrow> backend (state e') = backend (state e)
   \<Longrightarrow> ready e' = ready e \<Longrightarrow> sync_active e' = sync_active e"
  by (simp add: sync_active_def effectiveBackend_def)

lemma reduce_room: "room (reduce now m st) = room st"
  by (cases m) (simp_all add: applyDelta_def Let_def resetAll_def)

lemma reduce_backend: "backend (reduce now m st) = backend st"
  by (cases m) (simp_all add: applyDelta_def Let_def resetAll_def)

lemma adopt_room: "room (adopt r st) = room st" "backend (adopt r st) = backend st"
  by (simp_all add: adopt_def)

lemma upsert_effect_fields:
  "outbox (upsert_effect e) = outbox e" "clock (upsert_effect e) = clock e"
  "awaiting (upsert_effect e) = awaiting e" "ready (upsert_effect e) = ready e"
  "net (upsert_effect e) = net e"
  by (simp_all add: upsert_effect_def Let_def)

lemma upsert_effect_timer:
  "sync_active e \<Longrightarrow>
   timer (upsert_effect e) = Some \<lparr> due = clock e + 400, p_room = room (state e),
                                     p_points = points (state e), p_history = history (state e) \<rparr>"
  by (simp add: upsert_effect_def Let_def DEBOUNCE_def)

lemma upsert_effect_idle: "\<not> sync_active e \<Longrightarrow> timer (upsert_effect e) = None"
  by (simp add: upsert_effect_def Let_def)

lemma sync_active_upsert_effect: "sync_active (upsert_effect e) = sync_active e"
  by (rule sync_active_cong) (simp_all add: state_upsert_effect upsert_effect_fields)

lemma advance_quiet:
  assumes "timer e = Some p" "clock e + int d < due p"
  shows "advance d e = e\<lparr> clock := clock e + int d \<rparr>"
  using assms by (simp add: advance_def Let_def)

lemma advance_fires:
  assumes "timer e = Some p" "due p \<le> clock e + int d"
  shows "advance d e =
     (timer_callback p (e\<lparr> clock := max (clock e) (due p) \<rparr>))\<lparr> clock := clock e + int d \<rparr>"
  using assms by (simp add: advance_def Let_def)

lemma advance_no_timer: "timer e = None \<Longrightarrow> advance d e = e\<lparr> clock := clock e + int d \<rparr>"
  by (simp add: advance_def Let_def)

lemma set_shared_fields:
  "outbox (set_shared f e) = outbox e" "clock (set_shared f e) = clock e"
  "awaiting (set_shared f e) = awaiting e" "ready (set_shared f e) = ready e"
  by (simp_all add: set_shared_def upsert_effect_fields)

lemma set_shared_active:
  assumes "room (f (state e)) = room (state e)" "backend (f (state e)) = backend (state e)"
  shows "sync_active (set_shared f e) = sync_active e"
  by (rule sync_active_cong) (simp_all add: state_set_shared set_shared_fields assms)

lemma set_shared_timer:
  assumes "sync_active e" "room (f (state e)) = room (state e)"
    "backend (f (state e)) = backend (state e)"
  shows "timer (set_shared f e) = Some \<lparr> due = clock e + 400, p_room = room (state e),
            p_points = points (f (state e)), p_history = history (f (state e)) \<rparr>"
proof -
  have "sync_active (e\<lparr> state := f (state e) \<rparr>) = sync_active e"
    by (rule sync_active_cong) (simp_all add: assms)
  with assms(1) have "sync_active (e\<lparr> state := f (state e) \<rparr>)" by simp
  from upsert_effect_timer [OF this] show ?thesis
    by (simp add: set_shared_def assms(2))
qed

lemma fire_after_effect:
  assumes "sync_active e" "400 \<le> D"
  shows "outbox (advance D (upsert_effect e)) =
           outbox e @ [\<lparr> row_id = room (state e), row_points = points (state e),
                           row_history = history (state e), updated_at = clock e + 400 \<rparr>]"
    and "timer (advance D (upsert_effect e)) = None"
    and "lastRemoteRef (advance D (upsert_effect e)) = lastRemoteRef e"
    and "awaiting (advance D (upsert_effect e)) = Suc (awaiting e)"
    and "clock (advance D (upsert_effect e)) = clock e + int D"
    and "state (advance D (upsert_effect e)) = state e"
proof -
  let ?p = "\<lparr> due = clock e + 400, p_room = room (state e),
               p_points = points (state e), p_history = history (state e) \<rparr>"
  have t: "timer (upsert_effect e) = Some ?p" by (rule upsert_effect_timer [OF assms(1)])
  have d: "due ?p \<le> clock (upsert_effect e) + int D"
    using assms(2) by (simp add: upsert_effect_fields)
  note f = advance_fires [OF t d]
  show "outbox (advance D (upsert_effect e)) =
           outbox e @ [\<lparr> row_id = room (state e), row_points = points (state e),
                           row_history = history (state e), updated_at = clock e + 400 \<rparr>]"
    by (simp add: f timer_callback_def upsert_effect_fields)
  show "timer (advance D (upsert_effect e)) = None"
    by (simp add: f timer_callback_def)
  show "lastRemoteRef (advance D (upsert_effect e)) = lastRemoteRef e"
    by (simp add: f timer_callback_def cursor_upsert_effect)
  show "awaiting (advance D (upsert_effect e)) = Suc (awaiting e)"
    by (simp add: f timer_callback_def upsert_effect_fields)
  show "clock (advance D (upsert_effect e)) = clock e + int D"
    by (simp add: f timer_callback_def upsert_effect_fields)
  show "state (advance D (upsert_effect e)) = state e"
    by (simp add: state_advance state_upsert_effect)
qed

lemma quiet_after_effect:
  assumes "sync_active e" "d < 400"
  shows "advance d (upsert_effect e) = (upsert_effect e)\<lparr> clock := clock e + int d \<rparr>"
proof -
  let ?p = "\<lparr> due = clock e + 400, p_room = room (state e),
               p_points = points (state e), p_history = history (state e) \<rparr>"
  have t: "timer (upsert_effect e) = Some ?p" by (rule upsert_effect_timer [OF assms(1)])
  have d: "clock (upsert_effect e) + int d < due ?p"
    using assms(2) by (simp add: upsert_effect_fields)
  from advance_quiet [OF t d] show ?thesis by (simp add: upsert_effect_fields)
qed

lemma settle_after_fire:
  assumes "sync_active e" "400 \<le> D"
  shows "lastRemoteRef (step (advance d (advance D (upsert_effect e))) (UpsertSettled True))
           = Some (clock e + int D + int d)"
    and "lastRemoteRef (step (advance d (advance D (upsert_effect e))) (UpsertSettled False))
           = lastRemoteRef e"
proof -
  let ?e2 = "advance D (upsert_effect e)"
  note f = fire_after_effect [OF assms]
  have a: "advance d ?e2 = ?e2\<lparr> clock := clock e + int D + int d \<rparr>"
    using advance_no_timer [OF f(2), of d] by (simp add: f(5))
  show "lastRemoteRef (step (advance d ?e2) (UpsertSettled True)) = Some (clock e + int D + int d)"
    by (simp add: a f(4) upsert_resume_def)
  show "lastRemoteRef (step (advance d ?e2) (UpsertSettled False)) = lastRemoteRef e"
    by (simp add: a f(4) f(3))
qed

lemma example_engine_active: "sync_active example_engine"
  by (simp add: sync_active_def effectiveBackend_def example_engine_def example_state_def lit_def)

lemma example_engine_fields:
  "clock example_engine = 1000" "lastRemoteRef example_engine = Some 1000"
  "outbox example_engine = []" "state example_engine = example_state"
  by (simp_all add: example_engine_def)

text \<open>
  Claim C2, as stated, fails: when the timeout runs at 1400 and hands over the row stamped
  1400, the cursor still holds its old value 1000; when the awaited write returns 30
  milliseconds later the cursor becomes 1430, which is not the stamp of the row.
\<close>

theorem push_cursor_counterexample:
  "map updated_at (outbox (advance 400 (upsert_effect example_engine))) = [1400]
   \<and> lastRemoteRef (advance 400 (upsert_effect example_engine)) = Some 1000
   \<and> lastRemoteRef (step (advance 30 (advance 400 (upsert_effect example_engine)))
        (UpsertSettled True)) = Some 1430"
proof -
  have d: "(400::nat) \<le> 400" by simp
  note f = fire_after_effect [OF example_engine_active d]
  note s = settle_after_fire [OF example_engine_active d, of 30]
  have a: "map updated_at (outbox (advance 400 (upsert_effect example_engine))) = [1400]"
    by (simp add: f(1) example_engine_fields)
  have b: "lastRemoteRef (advance 400 (upsert_effect example_engine)) = Some 1000"
    by (simp add: f(3) example_engine_fields)
  have c: "lastRemoteRef (step (advance 30 (advance 400 (upsert_effect example_engine)))
        (UpsertSettled True)) = Some 1430"
    using s(1) by (simp add: example_engine_fields)
  from a b c show ?thesis by blast
qed

text \<open>
  Claim C2, amended. Every timeout is set by the upsert effect. When it runs, 400
  milliseconds after the effect, it hands over the \<open>points\<close> and \<open>history\<close> of the state
  the effect ran in, which is still the current state, with the clock reading of that
  moment as \<open>updated_at\<close>, and leaves the cursor as it is. The cursor is assigned only when
  the awaited write has returned, and its value is a second clock reading taken then; a
  rejected write leaves the cursor unchanged.
\<close>

theorem push_then_cursor:
  assumes "sync_active e" and "400 \<le> D"
  shows "outbox (advance D (upsert_effect e)) =
           outbox e @ [\<lparr> row_id = room (state e), row_points = points (state e),
                           row_history = history (state e), updated_at = clock e + 400 \<rparr>]
       \<and> state (advance D (upsert_effect e)) = state e
       \<and> lastRemoteRef (advance D (upsert_effect e)) = lastRemoteRef e
       \<and> lastRemoteRef (step (advance d (advance D (upsert_effect e))) (UpsertSettled True))
           = Some (clock e + int D + int d)
       \<and> lastRemoteRef (step (advance d (advance D (upsert_effect e))) (UpsertSettled False))
           = lastRemoteRef e"
  using fire_after_effect(1,6,3) [OF assms] settle_after_fire [OF assms, of d]
  by blast

theorem push_then_cursor_witness:
  "sync_active example_engine \<and> (400::nat) \<le> 450
   \<and> outbox (advance 450 (upsert_effect example_engine)) =
        [\<lparr> row_id = (lit ''demo''), row_points = zero_points, row_history = [], updated_at = 1400 \<rparr>]
   \<and> lastRemoteRef (advance 450 (upsert_effect example_engine)) = Some 1000
   \<and> lastRemoteRef (step (advance 20 (advance 450 (upsert_effect example_engine)))
        (UpsertSettled True)) = Some 1470"
proof -
  have d: "(400::nat) \<le> 450" by simp
  from push_then_cursor [OF example_engine_active d, of 20] example_engine_active d
  show ?thesis
    by (simp add: example_engine_fields example_state_def)
qed

section \<open>Debounce and echo\<close>

lemma run_Nil: "run e [] = e"
  by (simp add: run_def)

lemma run_Cons: "run e (ev # evs) = run (step e ev) evs"
  by (simp add: run_def)

lemma run_append: "run e (xs @ ys) = run (run e xs) ys"
  by (simp add: run_def)

lemma step_Mutate_fields:
  "outbox (step e (Mutate m)) = outbox e" "clock (step e (Mutate m)) = clock e"
  "awaiting (step e (Mutate m)) = awaiting e" "ready (step e (Mutate m)) = ready e"
  "room (state (step e (Mutate m))) = room (state e)"
  "backend (state (step e (Mutate m))) = backend (state e)"
  by (simp_all add: set_shared_fields state_set_shared reduce_room reduce_backend)

lemma step_Mutate_active: "sync_active (step e (Mutate m)) = sync_active e"
  by (rule sync_active_cong) (simp_all only: step_Mutate_fields)

lemma step_Mutate_state: "state (step e (Mutate m)) = reduce (clock e) m (state e)"
  by (simp add: state_set_shared)

lemma step_Mutate_timer:
  assumes "sync_active e"
  shows "timer (step e (Mutate m)) =
     Some \<lparr> due = clock e + 400, p_room = room (state e),
            p_points = points (state (step e (Mutate m))),
            p_history = history (state (step e (Mutate m))) \<rparr>"
  using set_shared_timer [OF assms, of "reduce (clock e) m"]
  by (simp add: reduce_room reduce_backend state_set_shared)

text \<open>A mutation followed by less than the debounce span: nothing is pushed.\<close>

lemma quiet_gap:
  assumes "sync_active e" "d < 400"
  shows "sync_active (advance d (step e (Mutate m)))"
    and "outbox (advance d (step e (Mutate m))) = outbox e"
    and "room (state (advance d (step e (Mutate m)))) = room (state e)"
    and "clock (advance d (step e (Mutate m))) = clock e + int d"
proof -
  let ?e1 = "step e (Mutate m)"
  let ?p = "\<lparr> due = clock e + 400, p_room = room (state e),
            p_points = points (state ?e1), p_history = history (state ?e1) \<rparr>"
  have t: "timer ?e1 = Some ?p" by (rule step_Mutate_timer [OF assms(1)])
  have lt: "clock ?e1 + int d < due ?p"
    using assms(2) by (simp add: step_Mutate_fields del: step.simps)
  have a: "advance d ?e1 = ?e1\<lparr> clock := clock ?e1 + int d \<rparr>"
    by (rule advance_quiet [OF t lt])
  have "sync_active (advance d ?e1) = sync_active ?e1"
    by (rule sync_active_cong) (simp_all add: a del: step.simps)
  then show "sync_active (advance d ?e1)" using assms(1) by (simp only: step_Mutate_active)
  show "outbox (advance d ?e1) = outbox e"
    by (simp add: a step_Mutate_fields(1) del: step.simps)
  show "room (state (advance d ?e1)) = room (state e)"
    by (simp only: state_advance step_Mutate_fields(5))
  show "clock (advance d ?e1) = clock e + int d"
    by (simp add: a step_Mutate_fields(2) del: step.simps)
qed

lemma burst_quiet:
  assumes "sync_active e" "\<forall>md \<in> set ms. snd md < 400"
  shows "sync_active (run e (burst ms)) \<and> outbox (run e (burst ms)) = outbox e
       \<and> room (state (run e (burst ms))) = room (state e)
       \<and> clock (run e (burst ms)) = clock e + int (sum_list (map snd ms))"
  using assms
proof (induction ms arbitrary: e)
  case Nil
  then show ?case by (simp add: run_Nil)
next
  case (Cons md ms)
  obtain m d where md: "md = (m, d)" by (cases md)
  let ?e' = "advance d (step e (Mutate m))"
  from Cons.prems(2) md have d: "d < 400" by simp
  note q = quiet_gap [OF Cons.prems(1) d, of m]
  from Cons.prems(2) have rest: "\<forall>md \<in> set ms. snd md < 400" by simp
  have r: "run e (burst (md # ms)) = run ?e' (burst ms)"
    by (simp add: md run_Cons)
  from Cons.IH [OF q(1) rest] show ?case
    by (simp only: r q(2,3,4)) (simp add: md)
qed

lemma advance_outbox_fires:
  assumes "timer e = Some p" "due p \<le> clock e + int d"
  shows "outbox (advance d e) =
     outbox e @ [\<lparr> row_id = p_room p, row_points = p_points p, row_history = p_history p,
                    updated_at = max (clock e) (due p) \<rparr>]"
    and "timer (advance d e) = None"
  by (simp_all add: advance_fires [OF assms] timer_callback_def)

lemma fire_after_mutation:
  assumes "sync_active e" "400 \<le> D"
  shows "outbox (advance D (step e (Mutate m))) =
           outbox e @ [\<lparr> row_id = room (state e),
                           row_points = points (state (step e (Mutate m))),
                           row_history = history (state (step e (Mutate m))),
                           updated_at = clock e + 400 \<rparr>]"
    and "timer (advance D (step e (Mutate m))) = None"
proof -
  let ?e1 = "step e (Mutate m)"
  let ?p = "\<lparr> due = clock e + 400, p_room = room (state e),
            p_points = points (state ?e1), p_history = history (state ?e1) \<rparr>"
  have t: "timer ?e1 = Some ?p" by (rule step_Mutate_timer [OF assms(1)])
  have le: "due ?p \<le> clock ?e1 + int D"
    using assms(2) by (simp add: step_Mutate_fields del: step.simps)
  from advance_outbox_fires(1) [OF t le]
  show "outbox (advance D ?e1) =
           outbox e @ [\<lparr> row_id = room (state e), row_points = points (state ?e1),
                           row_history = history (state ?e1), updated_at = clock e + 400 \<rparr>]"
    by (simp add: step_Mutate_fields del: step.simps)
  from advance_outbox_fires(2) [OF t le] show "timer (advance D ?e1) = None" .
qed

text \<open>
  Claim C3. Let \<open>N \<ge> 1\<close> local mutations happen while remote sync is active, each less
  than 400 milliseconds after the one before. While the burst lasts nothing is handed to
  \<open>upsert\<close>; after each mutation the only pending timeout is a new one, due 400
  milliseconds after that mutation and holding the state after it. Once 400 milliseconds
  pass without a further mutation exactly one row is handed over: it carries the
  \<open>points\<close> and \<open>history\<close> after the \<open>N\<close>th mutation, and no timeout is left.
\<close>

theorem debounce_coalesces:
  assumes "sync_active e" and "\<forall>md \<in> set ms. snd md < 400" and "400 \<le> D"
  shows "outbox (run e (burst ms @ [Mutate m])) = outbox e
       \<and> timer (run e (burst ms @ [Mutate m])) =
           Some \<lparr> due = clock e + int (sum_list (map snd ms)) + 400, p_room = room (state e),
                  p_points = points (state (run e (burst ms @ [Mutate m]))),
                  p_history = history (state (run e (burst ms @ [Mutate m]))) \<rparr>
       \<and> outbox (run e (burst ms @ [Mutate m, Advance D])) =
           outbox e @ [\<lparr> row_id = room (state e),
                           row_points = points (state (run e (burst ms @ [Mutate m]))),
                           row_history = history (state (run e (burst ms @ [Mutate m]))),
                           updated_at = clock e + int (sum_list (map snd ms)) + 400 \<rparr>]
       \<and> timer (run e (burst ms @ [Mutate m, Advance D])) = None
       \<and> state (run e (burst ms @ [Mutate m, Advance D])) = state (run e (burst ms @ [Mutate m]))"
proof -
  let ?eb = "run e (burst ms)"
  from burst_quiet [OF assms(1,2)]
  have act: "sync_active ?eb" and ob: "outbox ?eb = outbox e"
    and rm: "room (state ?eb) = room (state e)"
    and ck: "clock ?eb = clock e + int (sum_list (map snd ms))"
    by blast+
  have r1: "run e (burst ms @ [Mutate m]) = step ?eb (Mutate m)"
    by (simp only: run_append run_Cons run_Nil)
  have r2: "run e (burst ms @ [Mutate m, Advance D]) = advance D (step ?eb (Mutate m))"
    by (simp only: run_append run_Cons run_Nil step.simps)
  have a: "outbox (step ?eb (Mutate m)) = outbox e"
    by (simp only: step_Mutate_fields(1) ob)
  have b: "timer (step ?eb (Mutate m)) =
           Some \<lparr> due = clock e + int (sum_list (map snd ms)) + 400, p_room = room (state e),
                  p_points = points (state (step ?eb (Mutate m))),
                  p_history = history (state (step ?eb (Mutate m))) \<rparr>"
    using step_Mutate_timer [OF act, of m] by (simp only: rm ck)
  have c: "outbox (advance D (step ?eb (Mutate m))) =
           outbox e @ [\<lparr> row_id = room (state e),
                           row_points = points (state (step ?eb (Mutate m))),
                           row_history = history (state (step ?eb (Mutate m))),
                           updated_at = clock e + int (sum_list (map snd ms)) + 400 \<rparr>]"
    using fire_after_mutation(1) [OF act assms(3), of m] by (simp only: rm ck ob)
  have d: "timer (advance D (step ?eb (Mutate m))) = None"
    by (rule fire_after_mutation(2) [OF act assms(3)])
  have f: "state (advance D (step ?eb (Mutate m))) = state (step ?eb (Mutate m))"
    by (rule state_advance)
  from a b c d f show ?thesis by (simp only: r1 r2)
qed

lemma example_reset_state:
  "points (resetAll True st) = zero_points" "history (resetAll True st) = []"
  by (simp_all add: resetAll_def)

theorem debounce_coalesces_witness:
  "sync_active example_engine
   \<and> (100::nat) < 400 \<and> (399::nat) < 400
   \<and> (400::nat) \<le> 400
   \<and> outbox (run example_engine
        (burst [(ApplyDelta (lit ''u1'') Gryffindor 5 None, 100), (ApplyDelta (lit ''u2'') Slytherin 3 None, 399)]
         @ [Mutate ResetConfirmed, Advance 400]))
       = [\<lparr> row_id = (lit ''demo''), row_points = zero_points, row_history = [], updated_at = 1899 \<rparr>]"
proof -
  let ?ms = "[(ApplyDelta (lit ''u1'') Gryffindor 5 None, 100::nat), (ApplyDelta (lit ''u2'') Slytherin 3 None, 399)]"
  have g: "\<forall>md \<in> set ?ms. snd md < 400" by simp
  have d: "(400::nat) \<le> 400" by simp
  have s: "state (run example_engine (burst ?ms @ [Mutate ResetConfirmed]))
      = resetAll True (state (run example_engine (burst ?ms)))"
    by (simp only: run_append run_Cons run_Nil step_Mutate_state reduce.simps)
  from debounce_coalesces [OF example_engine_active g d, of ResetConfirmed]
  have "outbox (run example_engine (burst ?ms @ [Mutate ResetConfirmed, Advance 400]))
       = outbox example_engine @ [\<lparr> row_id = room (state example_engine),
           row_points = points (state (run example_engine (burst ?ms @ [Mutate ResetConfirmed]))),
           row_history = history (state (run example_engine (burst ?ms @ [Mutate ResetConfirmed]))),
           updated_at = clock example_engine + int (sum_list (map snd ?ms)) + 400 \<rparr>]"
    by blast
  then have "outbox (run example_engine (burst ?ms @ [Mutate ResetConfirmed, Advance 400]))
       = [\<lparr> row_id = (lit ''demo''), row_points = zero_points, row_history = [], updated_at = 1899 \<rparr>]"
    by (simp only: s example_reset_state example_engine_fields)
       (simp add: example_state_def)
  with example_engine_active d show ?thesis by simp
qed

lemma adopt_timer:
  assumes "sync_active e"
  shows "timer (set_shared (adopt r) (e\<lparr> lastRemoteRef := c \<rparr>)) =
     Some \<lparr> due = clock e + 400, p_room = room (state e), p_points = row_points r,
            p_history = take 200 (row_history r) \<rparr>"
proof -
  have "sync_active (e\<lparr> lastRemoteRef := c \<rparr>) = sync_active e"
    by (rule sync_active_cong) simp_all
  with assms have act: "sync_active (e\<lparr> lastRemoteRef := c \<rparr>)" by simp
  from set_shared_timer [OF act, of "adopt r"] show ?thesis
    by (simp add: adopt_room points_adopt history_adopt MAX_HISTORY_def)
qed

lemma loaded_schedules:
  assumes "sync_active e" "400 \<le> D"
  shows "timer (step e (Loaded (Some r))) =
           Some \<lparr> due = clock e + 400, p_room = room (state e), p_points = row_points r,
                  p_history = take 200 (row_history r) \<rparr>"
    and "outbox (run e [Loaded (Some r), Advance D]) =
           outbox e @ [\<lparr> row_id = room (state e), row_points = row_points r,
                           row_history = take 200 (row_history r),
                           updated_at = clock e + 400 \<rparr>]"
proof -
  let ?e1 = "step e (Loaded (Some r))"
  let ?p = "\<lparr> due = clock e + 400, p_room = room (state e), p_points = row_points r,
                  p_history = take 200 (row_history r) \<rparr>"
  show t: "timer ?e1 = Some ?p"
    using adopt_timer [OF assms(1), of r "Some (updated_at r)"]
    by (simp add: initial_load_resume_def)
  have f: "clock ?e1 = clock e" "outbox ?e1 = outbox e"
    by (simp_all add: initial_load_resume_def set_shared_fields)
  have le: "due ?p \<le> clock ?e1 + int D" using assms(2) by (simp only: f) simp
  have r: "run e [Loaded (Some r), Advance D] = advance D ?e1"
    by (simp only: run_Cons run_Nil step.simps)
  from advance_outbox_fires(1) [OF t le]
  show "outbox (run e [Loaded (Some r), Advance D]) =
           outbox e @ [\<lparr> row_id = room (state e), row_points = row_points r,
                           row_history = take 200 (row_history r),
                           updated_at = clock e + 400 \<rparr>]"
    by (simp only: r f) simp
qed

lemma change_schedules:
  assumes "sync_active e" "400 \<le> D"
    and "case lastRemoteRef e of None \<Rightarrow> True | Some t0 \<Rightarrow> t0 < updated_at r"
  shows "timer (step e (Change (Some r))) =
           Some \<lparr> due = clock e + 400, p_room = room (state e), p_points = row_points r,
                  p_history = take 200 (row_history r) \<rparr>"
    and "outbox (run e [Change (Some r), Advance D]) =
           outbox e @ [\<lparr> row_id = room (state e), row_points = row_points r,
                           row_history = take 200 (row_history r),
                           updated_at = clock e + 400 \<rparr>]"
proof -
  let ?e1 = "step e (Change (Some r))"
  let ?p = "\<lparr> due = clock e + 400, p_room = room (state e), p_points = row_points r,
                  p_history = take 200 (row_history r) \<rparr>"
  have s: "?e1 = set_shared (adopt r) (e\<lparr> lastRemoteRef := Some (updated_at r) \<rparr>)"
    using assms(1) on_change_applied [OF assms(3)] by simp
  show t: "timer ?e1 = Some ?p"
    by (simp only: s adopt_timer [OF assms(1)])
  have f: "clock ?e1 = clock e" "outbox ?e1 = outbox e"
    by (simp_all only: s set_shared_fields, simp_all)
  have le: "due ?p \<le> clock ?e1 + int D" using assms(2) by (simp only: f) simp
  have r: "run e [Change (Some r), Advance D] = advance D ?e1"
    by (simp only: run_Cons run_Nil step.simps(2))
  from advance_outbox_fires(1) [OF t le]
  show "outbox (run e [Change (Some r), Advance D]) =
           outbox e @ [\<lparr> row_id = room (state e), row_points = row_points r,
                           row_history = take 200 (row_history r),
                           updated_at = clock e + 400 \<rparr>]"
    by (simp only: r f) simp
qed

text \<open>
  Claim C9. While remote sync is active, a push is scheduled 400 milliseconds after every
  change of \<open>points\<close> or \<open>history\<close>: after a local mutation, after the initial fetch has
  returned a row, and after the subscription handler has applied a remote row. In the
  last two cases the row handed to \<open>upsert\<close> when the timeout runs is the remote snapshot
  just adopted, stamped anew: it is echoed back to the remote store.
\<close>

theorem push_follows_every_change:
  assumes "sync_active e" and "400 \<le> D"
  shows "timer (step e (Mutate m)) =
           Some \<lparr> due = clock e + 400, p_room = room (state e),
                  p_points = points (state (step e (Mutate m))),
                  p_history = history (state (step e (Mutate m))) \<rparr>
       \<and> timer (step e (Loaded (Some r))) =
           Some \<lparr> due = clock e + 400, p_room = room (state e), p_points = row_points r,
                  p_history = take 200 (row_history r) \<rparr>
       \<and> outbox (run e [Loaded (Some r), Advance D]) =
           outbox e @ [\<lparr> row_id = room (state e), row_points = row_points r,
                           row_history = take 200 (row_history r),
                           updated_at = clock e + 400 \<rparr>]
       \<and> ((case lastRemoteRef e of None \<Rightarrow> True | Some t0 \<Rightarrow> t0 < updated_at r) \<longrightarrow>
             timer (step e (Change (Some r))) =
               Some \<lparr> due = clock e + 400, p_room = room (state e), p_points = row_points r,
                      p_history = take 200 (row_history r) \<rparr>
           \<and> outbox (run e [Change (Some r), Advance D]) =
               outbox e @ [\<lparr> row_id = room (state e), row_points = row_points r,
                               row_history = take 200 (row_history r),
                               updated_at = clock e + 400 \<rparr>])"
  using step_Mutate_timer [OF assms(1), of m] loaded_schedules [OF assms, of r]
    change_schedules [OF assms, of r]
  by blast

theorem push_follows_every_change_witness:
  "sync_active example_engine \<and> (400::nat) \<le> 400
   \<and> (case lastRemoteRef example_engine of None \<Rightarrow> True
        | Some t0 \<Rightarrow> t0 < updated_at (example_row 1200))
   \<and> outbox (run example_engine [Change (Some (example_row 1200)), Advance 400]) =
        [\<lparr> row_id = (lit ''demo''), row_points = zero_points((lit ''Slytherin'') \<mapsto> Num 5),
            row_history = [example_entry], updated_at = 1400 \<rparr>]
   \<and> outbox (run example_engine [Loaded (Some (example_row 3)), Advance 400]) =
        [\<lparr> row_id = (lit ''demo''), row_points = zero_points((lit ''Slytherin'') \<mapsto> Num 5),
            row_history = [example_entry], updated_at = 1400 \<rparr>]"
proof -
  have d: "(400::nat) \<le> 400" by simp
  have h: "case lastRemoteRef example_engine of None \<Rightarrow> True
        | Some t0 \<Rightarrow> t0 < updated_at (example_row 1200)"
    by (simp add: example_engine_fields example_row_def)
  have v: "row_points (example_row t) = zero_points((lit ''Slytherin'') \<mapsto> Num 5)"
    "take 200 (row_history (example_row t)) = [example_entry]" for t
    by (simp_all add: example_row_def)
  have w: "room (state example_engine) = (lit ''demo'')" "clock example_engine + 400 = 1400"
    "outbox example_engine = []"
    by (simp_all add: example_engine_fields example_state_def)
  from push_follows_every_change [OF example_engine_active d, of _ "example_row 1200"] h
  have a: "outbox (run example_engine [Change (Some (example_row 1200)), Advance 400]) =
        outbox example_engine @ [\<lparr> row_id = room (state example_engine),
            row_points = row_points (example_row 1200),
            row_history = take 200 (row_history (example_row 1200)),
            updated_at = clock example_engine + 400 \<rparr>]"
    by blast
  from push_follows_every_change [OF example_engine_active d, of _ "example_row 3"]
  have b: "outbox (run example_engine [Loaded (Some (example_row 3)), Advance 400]) =
        outbox example_engine @ [\<lparr> row_id = room (state example_engine),
            row_points = row_points (example_row 3),
            row_history = take 200 (row_history (example_row 3)),
            updated_at = clock example_engine + 400 \<rparr>]"
    by blast
  from a b example_engine_active d h show ?thesis
    by (simp only: v w) simp
qed

end
